theory Spec2Isabelle
  imports Main "HOL-Library.Sublist"
begin

section \<open>Exceptions and stateful methods\<close>

text \<open>
  A JavaScript exception (and the rejection of the promise of an \<^verbatim>\<open>async\<close> method) is a
  value: \<open>Inl e\<close>. A method of an object is a function from the object's state to its outcome
  and the state it leaves behind; the state persists when the method throws, as the
  fields of a JavaScript object do.
\<close>

datatype error = Error string | TypeError string

type_synonym ('a, 'st) prog = "'st \<Rightarrow> (error + 'a) \<times> 'st"

definition returnM :: "'a \<Rightarrow> ('a, 'st) prog" where
  "returnM x this = (Inr x, this)"

definition throwM :: "error \<Rightarrow> ('a, 'st) prog" where
  "throwM e this = (Inl e, this)"

definition bindM :: "('a, 'st) prog \<Rightarrow> ('a \<Rightarrow> ('b, 'st) prog) \<Rightarrow> ('b, 'st) prog" where
  "bindM m f this = (case m this of (Inl e, this') \<Rightarrow> (Inl e, this') | (Inr x, this') \<Rightarrow> f x this')"

text \<open>\<^verbatim>\<open>try { m } catch (error) { h(error) }\<close>\<close>

definition catchM :: "('a, 'st) prog \<Rightarrow> (error \<Rightarrow> ('a, 'st) prog) \<Rightarrow> ('a, 'st) prog" where
  "catchM m h this = (case m this of (Inl e, this') \<Rightarrow> h e this' | (Inr x, this') \<Rightarrow> (Inr x, this'))"

text \<open>An assignment to a field of \<^verbatim>\<open>this\<close>.\<close>

definition modifyM :: "('st \<Rightarrow> 'st) \<Rightarrow> (unit, 'st) prog" where
  "modifyM f this = (Inr (), f this)"


section \<open>The tool provider: \<^verbatim>\<open>OpenConvAIPlugin\<close>\<close>

text \<open>
  The objects this package receives from its callers and collaborators and never looks
  into (the agent-kit handle, loggers, custom state managers, host plugins) are values of
  the type variable \<open>'o\<close>.

  A state manager is either the default one, \<^verbatim>\<open>new OpenConvaiState()\<close>, or one supplied from
  outside.
\<close>

datatype 'o IStateManager = OpenConvaiState | CustomState 'o

text \<open>
  \<^verbatim>\<open>new HCS10Builder(hederaKit, stateManager)\<close>: a builder is an object of its own. It
  carries the number that tells it apart from every other builder the plugin constructs,
  and the two arguments it was built from.
\<close>

datatype 'o HCS10Builder = HCS10Builder nat 'o "'o IStateManager"

text \<open>The eleven tool classes imported from the standards agent kit.\<close>

datatype tool_class =
    RegisterAgentTool
  | FindRegistrationsTool
  | RetrieveProfileTool
  | InitiateConnectionTool
  | ListConnectionsTool
  | SendMessageToConnectionTool
  | CheckMessagesTool
  | ConnectionMonitorTool
  | ManageConnectionRequestsTool
  | AcceptConnectionRequestTool
  | ListUnapprovedConnectionRequestsTool

text \<open>
  A tool is the class it instantiates and the parameter object its constructor was given:
  \<^verbatim>\<open>new C({ hederaKit, hcs10Builder, logger })\<close>.
\<close>

record 'o HederaTool =
  tool_class :: tool_class
  hederaKit :: 'o
  hcs10Builder :: "'o HCS10Builder"
  logger :: 'o





definition catalogue_classes :: "tool_class list" where
  "catalogue_classes =
     [RegisterAgentTool, FindRegistrationsTool, RetrieveProfileTool, InitiateConnectionTool,
      ListConnectionsTool, SendMessageToConnectionTool, CheckMessagesTool, ConnectionMonitorTool,
      ManageConnectionRequestsTool, AcceptConnectionRequestTool,
      ListUnapprovedConnectionRequestsTool]"

text \<open>
  The plugin context of the host runtime: \<^verbatim>\<open>context.config.hederaKit\<close> (absent: \<open>None\<close>),
  \<^verbatim>\<open>context.stateManager\<close> (optional) and \<^verbatim>\<open>context.logger\<close>.
\<close>

record 'o GenericPluginContext =
  config_hederaKit :: "'o option"
  stateManager :: "'o IStateManager option"
  logger :: 'o

text \<open>The calls made on a logger: the logger, the message, the attached error.\<close>

datatype 'o log_call = Warn 'o string | Info 'o string | ErrorLog 'o string error

text \<open>
  The constructor calls the plugin makes on the standards agent kit, with their
  arguments.
\<close>

datatype 'o construction =
    Construct_HCS10Builder 'o "'o IStateManager"
  | Construct_tool tool_class 'o "'o HCS10Builder" 'o

text \<open>
  The fields of the plugin object. \<open>plugin_context\<close> is the field \<^verbatim>\<open>context\<close> of \<^verbatim>\<open>BasePlugin\<close>, which
  \<^verbatim>\<open>super.initialize(context)\<close> sets; \<open>None\<close> is \<^verbatim>\<open>undefined\<close>. \<open>logged\<close> and \<open>constructed\<close> are
  not fields of the class: they collect the logger calls and the constructor calls the
  methods make, in order.
\<close>

record 'o OpenConvAIPlugin =
  plugin_context :: "'o GenericPluginContext option"
  stateManager :: "'o IStateManager option"
  tools :: "'o HederaTool list"
  logged :: "'o log_call list"
  constructed :: "'o construction list"

text \<open>
  The constructors of the standards agent kit may throw (the builder reads the signer and
  the network out of the agent-kit handle). Whether they do is a parameter.
\<close>

record 'o standards_agent_kit =
  HCS10Builder_throws :: "'o \<Rightarrow> 'o IStateManager \<Rightarrow> error option"
  tool_throws :: "tool_class \<Rightarrow> 'o \<Rightarrow> 'o HCS10Builder \<Rightarrow> 'o \<Rightarrow> error option"

text \<open>A constructor call: it is recorded, then it returns the new object or throws.\<close>

definition construct :: "'o construction \<Rightarrow> error + 'a \<Rightarrow> ('a, 'o OpenConvAIPlugin) prog" where
  "construct c r this = (r, this\<lparr>constructed := constructed this @ [c]\<rparr>)"

fun is_builder_construction :: "'o construction \<Rightarrow> bool" where
  "is_builder_construction (Construct_HCS10Builder hk sm) = True"
| "is_builder_construction (Construct_tool c hk b lg) = False"

text \<open>The number of builder constructions so far, which numbers the next builder.\<close>

definition builders_constructed :: "'o OpenConvAIPlugin \<Rightarrow> nat" where
  "builders_constructed this = length (filter is_builder_construction (constructed this))"

definition new_HCS10Builder ::
  "'o standards_agent_kit \<Rightarrow> 'o \<Rightarrow> 'o IStateManager \<Rightarrow> ('o HCS10Builder, 'o OpenConvAIPlugin) prog" where
  "new_HCS10Builder K hk sm this =
     construct (Construct_HCS10Builder hk sm)
       (case HCS10Builder_throws K hk sm of
          Some e \<Rightarrow> Inl e
        | None \<Rightarrow> Inr (HCS10Builder (builders_constructed this) hk sm))
       this"

definition new_tool ::
  "'o standards_agent_kit \<Rightarrow> tool_class \<Rightarrow> 'o \<Rightarrow> 'o HCS10Builder \<Rightarrow> 'o \<Rightarrow>
   ('o HederaTool, 'o OpenConvAIPlugin) prog" where
  "new_tool K c hk b lg =
     construct (Construct_tool c hk b lg)
       (case tool_throws K c hk b lg of
          Some e \<Rightarrow> Inl e
        | None \<Rightarrow> Inr \<lparr>tool_class = c, hederaKit = hk, hcs10Builder = b, logger = lg\<rparr>)"

text \<open>
  The array literal of \<^verbatim>\<open>initializeTools\<close>: its elements are constructed from left to right,
  each with the same parameters, and the first constructor that throws abandons the
  literal.
\<close>

fun new_tools ::
  "'o standards_agent_kit \<Rightarrow> tool_class list \<Rightarrow> 'o \<Rightarrow> 'o HCS10Builder \<Rightarrow> 'o \<Rightarrow>
   ('o HederaTool list, 'o OpenConvAIPlugin) prog" where
  "new_tools K [] hk b lg this = returnM [] this"
| "new_tools K (c # cs) hk b lg this =
     bindM (new_tool K c hk b lg) (\<lambda>t.
     bindM (new_tools K cs hk b lg) (\<lambda>ts.
     returnM (t # ts))) this"

definition plugin_id :: string where
  "plugin_id = ''openconvai-standards-agent-kit''"

definition plugin_name :: string where
  "plugin_name = ''OpenConvAI Standards Agent Kit Plugin''"

definition version :: string where
  "version = ''1.0.0''"

definition author :: string where
  "author = ''Hashgraph Online''"

definition namespace :: string where
  "namespace = ''openconvai''"

definition new_OpenConvAIPlugin :: "'o OpenConvAIPlugin" where
  "new_OpenConvAIPlugin =
     \<lparr>plugin_context = None, OpenConvAIPlugin.stateManager = None, tools = [], logged = [],
      constructed = []\<rparr>"

definition log :: "'o log_call \<Rightarrow> (unit, 'o OpenConvAIPlugin) prog" where
  "log c = modifyM (\<lambda>this. this\<lparr>logged := logged this @ [c]\<rparr>)"

definition initializeTools :: "'o standards_agent_kit \<Rightarrow> (unit, 'o OpenConvAIPlugin) prog" where
  "initializeTools K this =
     (case OpenConvAIPlugin.stateManager this of
        None \<Rightarrow> throwM (Error ''StateManager must be initialized before creating tools'') this
      | Some sm \<Rightarrow>
          (case plugin_context this of
             None \<Rightarrow> throwM (TypeError ''Cannot read properties of undefined (reading 'config')'') this
           | Some ctx \<Rightarrow>
               (case config_hederaKit ctx of
                  None \<Rightarrow> throwM (Error ''HederaKit not found in context config'') this
                | Some hk \<Rightarrow>
                    bindM (new_HCS10Builder K hk sm) (\<lambda>builder.
                    bindM (new_tools K catalogue_classes hk builder
                             (GenericPluginContext.logger ctx)) (\<lambda>ts.
                    modifyM (\<lambda>this. this\<lparr>tools := ts\<rparr>))) this)))"

text \<open>
  \<^verbatim>\<open>initialize(context)\<close>. \<^verbatim>\<open>super.initialize(context)\<close> stores the context in the plugin;
  \<^verbatim>\<open>this.context.logger\<close> is from then on the logger of that context.
\<close>

definition initialize ::
  "'o standards_agent_kit \<Rightarrow> 'o GenericPluginContext \<Rightarrow> (unit, 'o OpenConvAIPlugin) prog" where
  "initialize K ctx =
     bindM (modifyM (\<lambda>this. this\<lparr>plugin_context := Some ctx\<rparr>)) (\<lambda>_.
       case config_hederaKit ctx of
         None \<Rightarrow>
           log (Warn (GenericPluginContext.logger ctx)
                  ''HederaKit not found in context. OpenConvAI tools will not be available.'')
       | Some hk \<Rightarrow>
           catchM
             (bindM (modifyM (\<lambda>this. this\<lparr>OpenConvAIPlugin.stateManager :=
                        Some (case GenericPluginContext.stateManager ctx of
                                Some sm \<Rightarrow> sm
                              | None \<Rightarrow> OpenConvaiState)\<rparr>)) (\<lambda>_.
              bindM (initializeTools K) (\<lambda>_.
              log (Info (GenericPluginContext.logger ctx)
                     ''OpenConvAI Standards Agent Kit Plugin initialized successfully''))))
             (\<lambda>error.
                log (ErrorLog (GenericPluginContext.logger ctx)
                       ''Failed to initialize OpenConvAI plugin:'' error)))"

definition getTools :: "'o OpenConvAIPlugin \<Rightarrow> 'o HederaTool list" where
  "getTools this = tools this"

text \<open>\<open>None\<close> is \<^verbatim>\<open>undefined\<close>.\<close>

definition getStateManager :: "'o OpenConvAIPlugin \<Rightarrow> 'o IStateManager option" where
  "getStateManager this = OpenConvAIPlugin.stateManager this"

definition cleanup :: "(unit, 'o OpenConvAIPlugin) prog" where
  "cleanup =
     bindM (modifyM (\<lambda>this. this\<lparr>tools := []\<rparr>)) (\<lambda>_.
     bindM (modifyM (\<lambda>this. this\<lparr>OpenConvAIPlugin.stateManager := None\<rparr>)) (\<lambda>_.
     (\<lambda>this. case plugin_context this of
                None \<Rightarrow> returnM () this
              | Some ctx \<Rightarrow>
                  log (Info (GenericPluginContext.logger ctx)
                         ''OpenConvAI Standards Agent Kit Plugin cleaned up'') this)))"


section \<open>The bootstrap wrapper: \<^verbatim>\<open>StandardsKit\<close>\<close>

subsection \<open>Strings\<close>

text \<open>
  A character is a code unit below 256; strings with other characters are outside the
  model. \<^verbatim>\<open>toLowerCase\<close> maps the capital letters of that range (A to Z, and the accented
  capitals 192 to 222 except the multiplication sign 215) to their small letters, 32
  places further, and leaves every other character alone.
\<close>

definition toLowerCase_char :: "char \<Rightarrow> char" where
  "toLowerCase_char c =
     (let n = (of_char c :: nat) in
      if (65 \<le> n \<and> n \<le> 90) \<or> (192 \<le> n \<and> n \<le> 222 \<and> n \<noteq> 215)
      then char_of (n + 32) else c)"

definition toLowerCase :: "string \<Rightarrow> string" where
  "toLowerCase s = map toLowerCase_char s"

text \<open>\<^verbatim>\<open>s.includes(t)\<close>: \<open>t\<close> starts at some position of \<open>s\<close>.\<close>

fun string_includes :: "string \<Rightarrow> string \<Rightarrow> bool" where
  "string_includes [] t = (t = [])"
| "string_includes (c # cs) t = (prefix t (c # cs) \<or> string_includes cs t)"

text \<open>The default of a destructuring pattern, \<^verbatim>\<open>{ x = d } = options\<close>.\<close>

definition destructure_default :: "'a option \<Rightarrow> 'a \<Rightarrow> 'a" where
  "destructure_default x d = (case x of None \<Rightarrow> d | Some v \<Rightarrow> v)"

subsection \<open>Data\<close>

text \<open>
  A plugin object of the host runtime: a plugin of this package, given by its fields, or
  a plugin from elsewhere.
\<close>

datatype 'o BasePlugin = OpenConvAIPluginObj "'o OpenConvAIPlugin" | HostPlugin 'o

text \<open>
  The options bag. \<open>None\<close> is an absent (\<^verbatim>\<open>undefined\<close>) field. The interface declares
  \<^verbatim>\<open>accountId\<close> and \<^verbatim>\<open>privateKey\<close> as strings, but \<^verbatim>\<open>initialize\<close> checks for their absence, so
  they are optional here.
\<close>

record 'o StandardsKitOptions =
  accountId :: "string option"
  privateKey :: "string option"
  network :: "string option"
  openAIApiKey :: string
  openAIModelName :: "string option"
  verbose :: "bool option"
  operationalMode :: "string option"
  userAccountId :: "string option"
  customSystemMessagePreamble :: "string option"
  customSystemMessagePostamble :: "string option"
  additionalPlugins :: "'o BasePlugin list option"
  stateManager :: "'o IStateManager option"
  scheduleUserTransactionsInBytesMode :: "bool option"
  mirrorNodeConfig :: "'o option"
  disableLogging :: "bool option"

text \<open>
  What the mirror node answers: \<^verbatim>\<open>{ key: { _type } }\<close>, each level of which may be
  missing, or no record at all (\<open>None\<close>).
\<close>

record AccountKey =
  key_type :: "string option"

record AccountResponse =
  key :: "AccountKey option"

datatype Logger = Logger string

datatype HederaMirrorNode = HederaMirrorNode string Logger

text \<open>A parsed key is the parser that produced it and the string it was given.\<close>

datatype PrivateKey = ECDSA_key string | ED25519_key string

datatype ServerSigner = ServerSigner string PrivateKey string

text \<open>
  The values that occur in the agent configuration. An object is the list of its keys
  and values, in the order of the object literal.
\<close>

datatype 'o jsvalue =
    Undefined
  | StringV string
  | BoolV bool
  | ObjectV "(string \<times> 'o jsvalue) list"
  | PluginsV "'o BasePlugin list"
  | StateManagerV "'o IStateManager"
  | OpaqueV 'o

type_synonym 'o HederaConversationalAgentConfig = "(string \<times> 'o jsvalue) list"

datatype 'o HederaConversationalAgent =
  HederaConversationalAgent ServerSigner "'o HederaConversationalAgentConfig"

datatype chat_role = human | ai

type_synonym chat_history = "(chat_role \<times> string) list"

text \<open>
  The collaborators: the mirror node, the key parsers, the signer and the host runtime.
  What they answer and whether they throw is a parameter.
\<close>

record 'o host_runtime =
  HederaMirrorNode_throws :: "string \<Rightarrow> Logger \<Rightarrow> error option"
  requestAccount :: "HederaMirrorNode \<Rightarrow> string \<Rightarrow> error + AccountResponse option"
  fromStringECDSA_throws :: "string \<Rightarrow> error option"
  fromStringED25519_throws :: "string \<Rightarrow> error option"
  ServerSigner_throws :: "string \<Rightarrow> PrivateKey \<Rightarrow> string \<Rightarrow> error option"
  getAllHederaCorePlugins :: "error + 'o BasePlugin list"
  HederaConversationalAgent_throws ::
    "ServerSigner \<Rightarrow> 'o HederaConversationalAgentConfig \<Rightarrow> error option"
  agent_initialize :: "'o HederaConversationalAgent \<Rightarrow> error option"
  agent_processMessage ::
    "'o HederaConversationalAgent \<Rightarrow> string \<Rightarrow> chat_history \<Rightarrow> error + 'o"

text \<open>The calls made on the collaborators, with their arguments.\<close>

datatype 'o call =
    New_HederaMirrorNode string Logger
  | RequestAccount HederaMirrorNode string
  | FromStringECDSA string
  | FromStringED25519 string
  | New_ServerSigner string PrivateKey string
  | GetAllHederaCorePlugins
  | New_HederaConversationalAgent ServerSigner "'o HederaConversationalAgentConfig"
  | Agent_initialize "'o HederaConversationalAgent"
  | Agent_processMessage "'o HederaConversationalAgent" string chat_history
  | Logger_error Logger string error

text \<open>
  The fields of the wrapper. \<open>calls\<close> is not a field of the class: it collects the calls
  the methods make on the collaborators, in order.
\<close>

record 'o StandardsKit =
  conversationalAgent :: "'o HederaConversationalAgent option"
  plugin :: "'o OpenConvAIPlugin"
  stateManager :: "'o IStateManager"
  options :: "'o StandardsKitOptions"
  logger :: Logger
  calls :: "'o call list"

subsection \<open>Methods\<close>

definition new_StandardsKit :: "'o StandardsKitOptions \<Rightarrow> 'o StandardsKit" where
  "new_StandardsKit opts =
     \<lparr>conversationalAgent = None,
      plugin = new_OpenConvAIPlugin,
      StandardsKit.stateManager =
        (case StandardsKitOptions.stateManager opts of Some sm \<Rightarrow> sm | None \<Rightarrow> OpenConvaiState),
      options = opts,
      StandardsKit.logger = Logger ''StandardsKit'',
      calls = []\<rparr>"

text \<open>A call on a collaborator: it is recorded, then it returns or throws.\<close>

definition invoke :: "'o call \<Rightarrow> error + 'a \<Rightarrow> ('a, 'o StandardsKit) prog" where
  "invoke c r this = (r, this\<lparr>calls := calls this @ [c]\<rparr>)"

definition throws :: "error option \<Rightarrow> 'a \<Rightarrow> error + 'a" where
  "throws t x = (case t of Some e \<Rightarrow> Inl e | None \<Rightarrow> Inr x)"

definition defaultSystemMessage :: "string \<Rightarrow> string" where
  "defaultSystemMessage acct =
     ''You are a helpful assistant managing Hedera HCS-10 connections and messages.\<newline>'' @
     ''You have access to tools for registering agents, finding registered agents, initiating connections, listing active connections, sending messages over connections, and checking for new messages.\<newline>'' @
     ''\<newline>'' @
     ''*** IMPORTANT CONTEXT ***\<newline>'' @
     ''You are currently operating as agent: '' @ acct @ ''\<newline>'' @
     ''When users ask about \"my profile\", \"my account\", \"my connections\", etc., use this account ID: '' @ acct @ ''\<newline>'' @
     ''\<newline>'' @
     ''Remember the connection numbers when listing connections, as users might refer to them.''"

definition allPlugins ::
  "'o StandardsKit \<Rightarrow> 'o BasePlugin list \<Rightarrow> 'o BasePlugin list \<Rightarrow> 'o BasePlugin list" where
  "allPlugins this extra core = [OpenConvAIPluginObj (plugin this)] @ extra @ core"

text \<open>
  The object literal \<^verbatim>\<open>agentConfig\<close>. \<^verbatim>\<open>a || b\<close> on strings is \<open>b\<close> when \<open>a\<close> is absent or
  empty; \<^verbatim>\<open>...(x !== undefined && { x })\<close> adds the key only when \<open>x\<close> is present. The keys
  of the literal are distinct, so no later key overwrites an earlier one.
\<close>

definition agentConfig ::
  "'o StandardsKit \<Rightarrow> string \<Rightarrow> 'o BasePlugin list \<Rightarrow> 'o HederaConversationalAgentConfig" where
  "agentConfig this acct plugins =
     (let opts = options this in
      [(''pluginConfig'',
          ObjectV [(''plugins'', PluginsV plugins),
                   (''appConfig'',
                      ObjectV [(''stateManager'', StateManagerV (StandardsKit.stateManager this))])]),
       (''openAIApiKey'', StringV (openAIApiKey opts)),
       (''openAIModelName'', StringV (destructure_default (openAIModelName opts) ''gpt-4o'')),
       (''verbose'', BoolV (destructure_default (verbose opts) False)),
       (''operationalMode'', StringV (destructure_default (operationalMode opts) ''autonomous'')),
       (''userAccountId'', (case userAccountId opts of None \<Rightarrow> Undefined | Some u \<Rightarrow> StringV u)),
       (''customSystemMessagePreamble'',
          StringV (case customSystemMessagePreamble opts of
                     None \<Rightarrow> defaultSystemMessage acct
                   | Some p \<Rightarrow> if p = [] then defaultSystemMessage acct else p))]
      @ (case customSystemMessagePostamble opts of
           None \<Rightarrow> []
         | Some p \<Rightarrow> [(''customSystemMessagePostamble'', StringV p)])
      @ (case scheduleUserTransactionsInBytesMode opts of
           None \<Rightarrow> []
         | Some b \<Rightarrow> [(''scheduleUserTransactionsInBytesMode'', BoolV b)])
      @ (case mirrorNodeConfig opts of
           None \<Rightarrow> []
         | Some m \<Rightarrow> [(''mirrorNodeConfig'', OpaqueV m)])
      @ (case disableLogging opts of
           None \<Rightarrow> []
         | Some b \<Rightarrow> [(''disableLogging'', BoolV b)]))"

text \<open>\<^verbatim>\<open>accountInfo?.key?._type || ''\<close>\<close>

definition keyType :: "AccountResponse option \<Rightarrow> string" where
  "keyType accountInfo =
     (case accountInfo of
        None \<Rightarrow> []
      | Some info \<Rightarrow>
          (case key info of
             None \<Rightarrow> []
           | Some k \<Rightarrow> (case key_type k of None \<Rightarrow> [] | Some t \<Rightarrow> t)))"

text \<open>
  The \<^verbatim>\<open>try\<close> block of \<^verbatim>\<open>initialize()\<close>: the mirror-node lookup, the choice of the key
  parser, the signer, the core plugins, the configuration, the agent and its
  initialization. The two revisions of the class have the same block up to the
  configuration object they assemble once the core plugins are known, which is the
  parameter \<open>assemble\<close>. \<open>net\<close>, \<open>acct\<close> and \<open>pkey\<close> are the destructured \<^verbatim>\<open>network\<close>,
  \<^verbatim>\<open>accountId\<close> and \<^verbatim>\<open>privateKey\<close>, and \<open>lg\<close> is \<^verbatim>\<open>this.logger\<close>.
\<close>

definition try_block ::
  "'o host_runtime \<Rightarrow> string \<Rightarrow> Logger \<Rightarrow> string \<Rightarrow> string \<Rightarrow>
   ('o BasePlugin list \<Rightarrow> 'o HederaConversationalAgentConfig) \<Rightarrow> (unit, 'o StandardsKit) prog" where
  "try_block H net lg acct pkey assemble =
     bindM (invoke (New_HederaMirrorNode net lg)
              (throws (HederaMirrorNode_throws H net lg) (HederaMirrorNode net lg))) (\<lambda>mirrorNode.
     bindM (invoke (RequestAccount mirrorNode acct)
              (requestAccount H mirrorNode acct)) (\<lambda>accountInfo.
     bindM (if string_includes (toLowerCase (keyType accountInfo)) ''ecdsa''
            then invoke (FromStringECDSA pkey)
                   (throws (fromStringECDSA_throws H pkey) (ECDSA_key pkey))
            else invoke (FromStringED25519 pkey)
                   (throws (fromStringED25519_throws H pkey) (ED25519_key pkey))) (\<lambda>privateKeyInstance.
     bindM (invoke (New_ServerSigner acct privateKeyInstance net)
              (throws (ServerSigner_throws H acct privateKeyInstance net)
                 (ServerSigner acct privateKeyInstance net))) (\<lambda>serverSigner.
     bindM (invoke GetAllHederaCorePlugins (getAllHederaCorePlugins H)) (\<lambda>core.
     bindM (invoke (New_HederaConversationalAgent serverSigner (assemble core))
              (throws (HederaConversationalAgent_throws H serverSigner (assemble core))
                 (HederaConversationalAgent serverSigner (assemble core)))) (\<lambda>agent.
     bindM (modifyM (\<lambda>this. this\<lparr>conversationalAgent := Some agent\<rparr>)) (\<lambda>_.
     invoke (Agent_initialize agent) (throws (agent_initialize H agent) ()))))))))"

text \<open>The \<^verbatim>\<open>catch\<close> block of \<^verbatim>\<open>initialize()\<close>: log the error, throw it again.\<close>

definition catch_block :: "Logger \<Rightarrow> error \<Rightarrow> (unit, 'o StandardsKit) prog" where
  "catch_block lg error =
     bindM (invoke (Logger_error lg ''Failed to initialize StandardsKit:'' error) (Inr ()))
       (\<lambda>_. throwM error)"

text \<open>
  \<^verbatim>\<open>initialize()\<close>. \<^verbatim>\<open>!accountId || !privateKey\<close> holds when either is absent or empty. The
  fields \<^verbatim>\<open>plugin\<close>, \<^verbatim>\<open>stateManager\<close> and \<^verbatim>\<open>logger\<close> are assigned by the constructor only, so
  they are read from the state the method starts in.
\<close>

definition StandardsKit_initialize :: "'o host_runtime \<Rightarrow> (unit, 'o StandardsKit) prog" where
  "StandardsKit_initialize H this =
     (let opts = options this;
          net = destructure_default (network opts) ''testnet'';
          extra = destructure_default (additionalPlugins opts) [];
          lg = StandardsKit.logger this
      in
      case accountId opts of
        None \<Rightarrow> throwM (Error ''Account ID and private key are required'') this
      | Some acct \<Rightarrow>
     (case privateKey opts of
        None \<Rightarrow> throwM (Error ''Account ID and private key are required'') this
      | Some pkey \<Rightarrow>
     (if acct = [] \<or> pkey = []
      then throwM (Error ''Account ID and private key are required'') this
      else
        catchM
          (try_block H net lg acct pkey
             (\<lambda>core. agentConfig this acct (allPlugins this extra core)))
          (catch_block lg)
          this)))"

definition getPlugin :: "'o StandardsKit \<Rightarrow> 'o OpenConvAIPlugin" where
  "getPlugin this = plugin this"

definition StandardsKit_getStateManager :: "'o StandardsKit \<Rightarrow> 'o IStateManager" where
  "StandardsKit_getStateManager this = StandardsKit.stateManager this"

definition getConversationalAgent :: "'o StandardsKit \<Rightarrow> error + 'o HederaConversationalAgent" where
  "getConversationalAgent this =
     (case conversationalAgent this of
        None \<Rightarrow> Inl (Error ''StandardsKit not initialized. Call initialize() first.'')
      | Some agent \<Rightarrow> Inr agent)"

text \<open>\<^verbatim>\<open>processMessage(message, chatHistory = [])\<close>\<close>

definition processMessage ::
  "'o host_runtime \<Rightarrow> string \<Rightarrow> chat_history option \<Rightarrow> ('o, 'o StandardsKit) prog" where
  "processMessage H message chatHistory this =
     (let history = destructure_default chatHistory [] in
      case conversationalAgent this of
        None \<Rightarrow> throwM (Error ''StandardsKit not initialized. Call initialize() first.'') this
      | Some agent \<Rightarrow>
          invoke (Agent_processMessage agent message history)
            (agent_processMessage H agent message history) this)"


subsection \<open>The revision of the wrapper kept as \<^verbatim>\<open>src/StandardsKit.ts\<close>\<close>

text \<open>
  The file \<^verbatim>\<open>src/StandardsKit.ts\<close> holds a revision of the class whose options end with
  \<^verbatim>\<open>userAccountId\<close>: it reads none of the later fields, always builds its own state
  manager, passes the plugin and the core plugins only, and has a longer fixed preamble.
  Its credential check, its key detection and its accessors are the same text.
\<close>

definition new_StandardsKit_v1 :: "'o StandardsKitOptions \<Rightarrow> 'o StandardsKit" where
  "new_StandardsKit_v1 opts =
     \<lparr>conversationalAgent = None,
      plugin = new_OpenConvAIPlugin,
      StandardsKit.stateManager = OpenConvaiState,
      options = opts,
      StandardsKit.logger = Logger ''StandardsKit'',
      calls = []\<rparr>"

definition systemMessage_v1 :: "string \<Rightarrow> string" where
  "systemMessage_v1 acct =
     ''You are a helpful assistant managing Hedera HCS-10 connections and messages.\<newline>'' @
     ''You have access to tools for registering agents, finding registered agents, initiating connections, listing active connections, sending messages over connections, and checking for new messages.\<newline>'' @
     ''\<newline>'' @
     ''*** IMPORTANT CONTEXT ***\<newline>'' @
     ''You are currently operating as agent: '' @ acct @ ''\<newline>'' @
     ''When users ask about \"my profile\", \"my account\", \"my connections\", etc., use this account ID: '' @ acct @ ''\<newline>'' @
     ''\<newline>'' @
     ''*** IMPORTANT TOOL SELECTION RULES ***\<newline>'' @
     ''- To REGISTER a new agent, use 'register_agent'.\<newline>'' @
     ''- To FIND existing registered agents in the registry, use 'find_registrations'. You can filter by accountId or tags.\<newline>'' @
     ''- To START a NEW connection TO a specific target agent (using their account ID), ALWAYS use the 'initiate_connection' tool.\<newline>'' @
     ''- To LISTEN for INCOMING connection requests FROM other agents, use the 'monitor_connections' tool (it takes NO arguments).\<newline>'' @
     ''- To SEND a message to a specific agent, use 'send_message_to_connection' tool.\<newline>'' @
     ''- To ACCEPT incoming connection requests, use the 'accept_connection_request' tool.\<newline>'' @
     ''- To MANAGE and VIEW pending connection requests, use the 'manage_connection_requests' tool.\<newline>'' @
     ''- To CHECK FOR *NEW* messages since the last check, use the 'check_messages' tool.\<newline>'' @
     ''- To GET THE *LATEST* MESSAGE(S) in a conversation, even if you might have seen them before, use the 'check_messages' tool and set the parameter 'fetchLatest: true'. You can optionally specify 'lastMessagesCount' to get more than one latest message (default is 1).\<newline>'' @
     ''- To RETRIEVE a profile, use the 'retrieve_profile' tool. When users ask for \"my profile\", use the current account ID: '' @ acct @ ''\<newline>'' @
     ''- Do NOT confuse these tools.\<newline>'' @
     ''\<newline>'' @
     ''Remember the connection numbers when listing connections, as users might refer to them.''"

definition agentConfig_v1 ::
  "'o StandardsKit \<Rightarrow> string \<Rightarrow> 'o BasePlugin list \<Rightarrow> 'o HederaConversationalAgentConfig" where
  "agentConfig_v1 this acct core =
     (let opts = options this in
      [(''pluginConfig'',
          ObjectV [(''plugins'', PluginsV ([OpenConvAIPluginObj (plugin this)] @ core)),
                   (''appConfig'',
                      ObjectV [(''stateManager'', StateManagerV (StandardsKit.stateManager this))])]),
       (''openAIApiKey'', StringV (openAIApiKey opts)),
       (''openAIModelName'', StringV (destructure_default (openAIModelName opts) ''gpt-4o'')),
       (''verbose'', BoolV (destructure_default (verbose opts) False)),
       (''operationalMode'', StringV (destructure_default (operationalMode opts) ''autonomous'')),
       (''userAccountId'', (case userAccountId opts of None \<Rightarrow> Undefined | Some u \<Rightarrow> StringV u)),
       (''customSystemMessagePreamble'', StringV (systemMessage_v1 acct))])"

definition StandardsKit_initialize_v1 :: "'o host_runtime \<Rightarrow> (unit, 'o StandardsKit) prog" where
  "StandardsKit_initialize_v1 H this =
     (let opts = options this;
          net = destructure_default (network opts) ''testnet'';
          lg = StandardsKit.logger this
      in
      case accountId opts of
        None \<Rightarrow> throwM (Error ''Account ID and private key are required'') this
      | Some acct \<Rightarrow>
     (case privateKey opts of
        None \<Rightarrow> throwM (Error ''Account ID and private key are required'') this
      | Some pkey \<Rightarrow>
     (if acct = [] \<or> pkey = []
      then throwM (Error ''Account ID and private key are required'') this
      else
        catchM
          (try_block H net lg acct pkey (\<lambda>core. agentConfig_v1 this acct core))
          (catch_block lg)
          this)))"


section \<open>Observations\<close>

text \<open>
  The plugin initialized successfully when its last act was to log the success message,
  which \<^verbatim>\<open>initialize\<close> does once the catalogue is built and at no other point.
\<close>

definition initialize_succeeds ::
  "'o standards_agent_kit \<Rightarrow> 'o GenericPluginContext \<Rightarrow> 'o OpenConvAIPlugin \<Rightarrow> bool" where
  "initialize_succeeds K ctx this \<longleftrightarrow>
     logged (snd (initialize K ctx this)) =
       logged this @ [Info (GenericPluginContext.logger ctx)
                        ''OpenConvAI Standards Agent Kit Plugin initialized successfully'']"

text \<open>The lifecycle calls the host runtime makes on a plugin, and the state they lead to.\<close>

datatype 'o lifecycle_call = Initialize "'o GenericPluginContext" | Cleanup

fun after_call ::
  "'o standards_agent_kit \<Rightarrow> 'o lifecycle_call \<Rightarrow> 'o OpenConvAIPlugin \<Rightarrow> 'o OpenConvAIPlugin" where
  "after_call K (Initialize ctx) this = snd (initialize K ctx this)"
| "after_call K Cleanup this = snd (cleanup this)"

fun after_calls ::
  "'o standards_agent_kit \<Rightarrow> 'o lifecycle_call list \<Rightarrow> 'o OpenConvAIPlugin \<Rightarrow> 'o OpenConvAIPlugin" where
  "after_calls K [] this = this"
| "after_calls K (c # cs) this = after_calls K cs (after_call K c this)"

text \<open>No call of the sequence, made in turn from the given state, is a successful \<^verbatim>\<open>initialize\<close>.\<close>

fun no_successful_initialize ::
  "'o standards_agent_kit \<Rightarrow> 'o lifecycle_call list \<Rightarrow> 'o OpenConvAIPlugin \<Rightarrow> bool" where
  "no_successful_initialize K [] this = True"
| "no_successful_initialize K (c # cs) this =
     ((case c of Initialize ctx \<Rightarrow> \<not> initialize_succeeds K ctx this | Cleanup \<Rightarrow> True)
      \<and> no_successful_initialize K cs (after_call K c this))"

text \<open>The calls of a trace that parse a private key.\<close>

fun is_parser_call :: "'o call \<Rightarrow> bool" where
  "is_parser_call (FromStringECDSA s) = True"
| "is_parser_call (FromStringED25519 s) = True"
| "is_parser_call c = False"

definition parser_calls :: "'o call list \<Rightarrow> 'o call list" where
  "parser_calls cs = filter is_parser_call cs"

text \<open>The configurations a trace hands to the constructor of the conversational agent.\<close>

fun assembled_configs :: "'o call list \<Rightarrow> 'o HederaConversationalAgentConfig list" where
  "assembled_configs [] = []"
| "assembled_configs (New_HederaConversationalAgent signer cfg # cs) = cfg # assembled_configs cs"
| "assembled_configs (c # cs) = assembled_configs cs"

text \<open>\<^verbatim>\<open>config.pluginConfig.plugins\<close>\<close>

definition config_plugins :: "'o HederaConversationalAgentConfig \<Rightarrow> 'o BasePlugin list option" where
  "config_plugins cfg =
     (case map_of cfg ''pluginConfig'' of
        Some (ObjectV pc) \<Rightarrow>
          (case map_of pc ''plugins'' of Some (PluginsV ps) \<Rightarrow> Some ps | _ \<Rightarrow> None)
      | _ \<Rightarrow> None)"

text \<open>
  The key-type tag of a lookup result, when it has one: the account record, its key and
  the tag of the key are all there.
\<close>

definition returned_tag :: "AccountResponse option \<Rightarrow> string option" where
  "returned_tag accountInfo =
     (case accountInfo of
        None \<Rightarrow> None
      | Some info \<Rightarrow> (case key info of None \<Rightarrow> None | Some k \<Rightarrow> key_type k))"

text \<open>
  In the words of the spec: the tag contains the substring "ecdsa" in any letter case.
  Some run of consecutive characters of the tag reads "ecdsa" once its letters are made
  small.
\<close>

definition contains_ecdsa_in_any_case :: "string \<Rightarrow> bool" where
  "contains_ecdsa_in_any_case tag \<longleftrightarrow>
     (\<exists>before run after. tag = before @ run @ after \<and> toLowerCase run = ''ecdsa'')"

text \<open>
  What the \<^verbatim>\<open>try\<close> block of the plugin's \<^verbatim>\<open>initialize\<close> works with: the state manager it
  assigns (\<^verbatim>\<open>context.stateManager || new OpenConvaiState()\<close>), and the outcome of the
  construction steps of \<^verbatim>\<open>initializeTools\<close> together with the constructor calls they make:
  the tools of the array literal, given the builder, and before them the builder, given
  its number.
\<close>

definition chosen_stateManager :: "'o GenericPluginContext \<Rightarrow> 'o IStateManager" where
  "chosen_stateManager ctx =
     (case GenericPluginContext.stateManager ctx of Some sm \<Rightarrow> sm | None \<Rightarrow> OpenConvaiState)"

fun tools_outcome ::
  "'o standards_agent_kit \<Rightarrow> tool_class list \<Rightarrow> 'o \<Rightarrow> 'o HCS10Builder \<Rightarrow> 'o \<Rightarrow>
   (error + 'o HederaTool list) \<times> 'o construction list" where
  "tools_outcome K [] hk b lg = (Inr [], [])"
| "tools_outcome K (c # cs) hk b lg =
     (case tool_throws K c hk b lg of
        Some e \<Rightarrow> (Inl e, [Construct_tool c hk b lg])
      | None \<Rightarrow>
          (case tools_outcome K cs hk b lg of
             (Inl e, made) \<Rightarrow> (Inl e, Construct_tool c hk b lg # made)
           | (Inr ts, made) \<Rightarrow>
               (Inr (\<lparr>tool_class = c, hederaKit = hk, hcs10Builder = b, logger = lg\<rparr> # ts),
                Construct_tool c hk b lg # made)))"

definition build_catalogue ::
  "'o standards_agent_kit \<Rightarrow> nat \<Rightarrow> 'o \<Rightarrow> 'o IStateManager \<Rightarrow> 'o \<Rightarrow>
   (error + 'o HederaTool list) \<times> 'o construction list" where
  "build_catalogue K n hk sm lg =
     (case HCS10Builder_throws K hk sm of
        Some e \<Rightarrow> (Inl e, [Construct_HCS10Builder hk sm])
      | None \<Rightarrow>
          (case tools_outcome K catalogue_classes hk (HCS10Builder n hk sm) lg of
             (r, made) \<Rightarrow> (r, Construct_HCS10Builder hk sm # made)))"

text \<open>
  The key object the selected parser returns for a lookup result, and whether the selected
  parser throws.
\<close>

definition selected_key :: "AccountResponse option \<Rightarrow> string \<Rightarrow> PrivateKey" where
  "selected_key accountInfo pkey =
     (if string_includes (toLowerCase (keyType accountInfo)) ''ecdsa''
      then ECDSA_key pkey else ED25519_key pkey)"

definition selected_parser_throws ::
  "'o host_runtime \<Rightarrow> AccountResponse option \<Rightarrow> string \<Rightarrow> error option" where
  "selected_parser_throws H accountInfo pkey =
     (if string_includes (toLowerCase (keyType accountInfo)) ''ecdsa''
      then fromStringECDSA_throws H pkey else fromStringED25519_throws H pkey)"

text \<open>
  \<^verbatim>\<open>initialize()\<close> gets as far as assembling the agent configuration when the credentials
  are there and every step before the assembly returns: the mirror node is constructed,
  the lookup answers, the selected parser accepts the key, the signer is constructed and
  the core plugins are listed. The value is then the account identifier and the core
  plugins; otherwise it is \<open>None\<close>. In the first case exactly one configuration is handed
  to the constructor of the agent, in the second case none (lemmas
  \<open>initialize_assembles\<close> and \<open>no_assembly_otherwise\<close>).
\<close>

definition assembly_inputs ::
  "'o host_runtime \<Rightarrow> 'o StandardsKit \<Rightarrow> (string \<times> 'o BasePlugin list) option" where
  "assembly_inputs H this =
     (let opts = options this;
          net = destructure_default (network opts) ''testnet'';
          lg = StandardsKit.logger this
      in
      case accountId opts of
        None \<Rightarrow> None
      | Some acct \<Rightarrow>
     (case privateKey opts of
        None \<Rightarrow> None
      | Some pkey \<Rightarrow>
     (if acct = [] \<or> pkey = [] then None
      else if HederaMirrorNode_throws H net lg \<noteq> None then None
      else
        (case requestAccount H (HederaMirrorNode net lg) acct of
           Inl e \<Rightarrow> None
         | Inr accountInfo \<Rightarrow>
             if selected_parser_throws H accountInfo pkey \<noteq> None then None
             else if ServerSigner_throws H acct (selected_key accountInfo pkey) net \<noteq> None then None
             else (case getAllHederaCorePlugins H of
                     Inl e \<Rightarrow> None
                   | Inr core \<Rightarrow> Some (acct, core))))))"

text \<open>\<^verbatim>\<open>Object.keys(config)\<close> and \<^verbatim>\<open>config[k]\<close> (\<open>None\<close> when the object has no key \<open>k\<close>).\<close>

definition config_keys :: "'o HederaConversationalAgentConfig \<Rightarrow> string list" where
  "config_keys cfg = map fst cfg"

definition config_value :: "string \<Rightarrow> 'o HederaConversationalAgentConfig \<Rightarrow> 'o jsvalue option" where
  "config_value k cfg = map_of cfg k"

text \<open>The calls of a trace that hand a message to the conversational agent.\<close>

fun is_processMessage_call :: "'o call \<Rightarrow> bool" where
  "is_processMessage_call (Agent_processMessage agent message history) = True"
| "is_processMessage_call c = False"

text \<open>
  A method adds \<open>ys\<close> to an observation of the trace when, from every state, the
  observation of the calls afterwards is the observation of the calls before, followed by
  \<open>ys\<close>. An observation is additive when it reads a trace piece by piece.
\<close>

definition emits ::
  "('o call list \<Rightarrow> 'b list) \<Rightarrow> ('a, 'o StandardsKit) prog \<Rightarrow> 'b list \<Rightarrow> bool" where
  "emits obs m ys \<longleftrightarrow> (\<forall>this. obs (calls (snd (m this))) = obs (calls this) @ ys)"

definition additive :: "('o call list \<Rightarrow> 'b list) \<Rightarrow> bool" where
  "additive obs \<longleftrightarrow> (\<forall>xs ys. obs (xs @ ys) = obs xs @ obs ys)"


section \<open>Sample collaborators and inputs\<close>

text \<open>A standards agent kit whose constructors all return, and one whose builder throws.\<close>

definition quiet_agent_kit :: "string standards_agent_kit" where
  "quiet_agent_kit =
     \<lparr>HCS10Builder_throws = (\<lambda>hk sm. None), tool_throws = (\<lambda>c hk b lg. None)\<rparr>"

definition failing_agent_kit :: "string standards_agent_kit" where
  "failing_agent_kit =
     \<lparr>HCS10Builder_throws = (\<lambda>hk sm. Some (Error ''Failed to initialize HCS10 client'')),
      tool_throws = (\<lambda>c hk b lg. None)\<rparr>"

definition context_with_kit :: "string GenericPluginContext" where
  "context_with_kit =
     \<lparr>config_hederaKit = Some ''mockHederaKit'',
      GenericPluginContext.stateManager = None,
      GenericPluginContext.logger = ''test''\<rparr>"

definition context_without_kit :: "string GenericPluginContext" where
  "context_without_kit =
     \<lparr>config_hederaKit = None,
      GenericPluginContext.stateManager = None,
      GenericPluginContext.logger = ''test''\<rparr>"

definition context_with_state :: "string GenericPluginContext" where
  "context_with_state =
     \<lparr>config_hederaKit = Some ''mockHederaKit'',
      GenericPluginContext.stateManager = Some (CustomState ''customStateManager''),
      GenericPluginContext.logger = ''test''\<rparr>"

text \<open>The options of the unit tests: credentials and a model key, nothing else.\<close>

definition test_options :: "string StandardsKitOptions" where
  "test_options =
     \<lparr>accountId = Some ''0.0.12345'',
      privateKey = Some ''mock-private-key'',
      network = None,
      openAIApiKey = ''sk-test'',
      openAIModelName = None,
      verbose = None,
      operationalMode = None,
      userAccountId = None,
      customSystemMessagePreamble = None,
      customSystemMessagePostamble = None,
      additionalPlugins = None,
      StandardsKitOptions.stateManager = None,
      scheduleUserTransactionsInBytesMode = None,
      mirrorNodeConfig = None,
      disableLogging = None\<rparr>"

text \<open>
  A host in which nothing throws: the mirror node reports the given key-type tag, there is
  one core plugin and the agent answers every message.
\<close>

definition host_reporting :: "string \<Rightarrow> string host_runtime" where
  "host_reporting tag =
     \<lparr>HederaMirrorNode_throws = (\<lambda>net lg. None),
      requestAccount = (\<lambda>node acct. Inr (Some \<lparr>key = Some \<lparr>key_type = Some tag\<rparr>\<rparr>)),
      fromStringECDSA_throws = (\<lambda>s. None),
      fromStringED25519_throws = (\<lambda>s. None),
      ServerSigner_throws = (\<lambda>acct k net. None),
      getAllHederaCorePlugins = Inr [HostPlugin ''core-plugin''],
      HederaConversationalAgent_throws = (\<lambda>signer cfg. None),
      agent_initialize = (\<lambda>agent. None),
      agent_processMessage = (\<lambda>agent message history. Inr ''Agent response'')\<rparr>"

text \<open>The same host, except that the initialization of the agent it constructs rejects.\<close>

definition host_rejecting_agent_initialize :: "string host_runtime" where
  "host_rejecting_agent_initialize =
     (host_reporting ''ED25519'')
       \<lparr>agent_initialize := (\<lambda>agent. Some (Error ''Agent initialization failed''))\<rparr>"


text \<open>Variations of the options: an extra plugin, a custom preamble, an empty one, a postamble.\<close>

definition options_with_extra_plugin :: "string StandardsKitOptions" where
  "options_with_extra_plugin = test_options\<lparr>additionalPlugins := Some [HostPlugin ''mock-plugin'']\<rparr>"

definition options_with_custom_preamble :: "string StandardsKitOptions" where
  "options_with_custom_preamble =
     test_options\<lparr>customSystemMessagePreamble := Some ''Custom instructions here''\<rparr>"

definition options_with_postamble :: "string StandardsKitOptions" where
  "options_with_postamble =
     test_options\<lparr>customSystemMessagePostamble := Some ''Additional instructions'',
                  disableLogging := Some True\<rparr>"

definition options_with_empty_preamble :: "string StandardsKitOptions" where
  "options_with_empty_preamble = test_options\<lparr>customSystemMessagePreamble := Some []\<rparr>"


section \<open>The tool provider: what its methods do\<close>

lemma new_tools_eq:
  "new_tools K cs hk b lg this =
     (fst (tools_outcome K cs hk b lg),
      this\<lparr>constructed := constructed this @ snd (tools_outcome K cs hk b lg)\<rparr>)"
proof (induction cs arbitrary: this)
  case Nil
  then show ?case by (simp add: returnM_def)
next
  case (Cons c cs)
  show ?case
    by (simp add: bindM_def new_tool_def construct_def returnM_def Cons.IH
        split: option.splits prod.splits sum.splits)
qed



lemma initializeTools_eq:
  assumes "OpenConvAIPlugin.stateManager this = Some sm" "plugin_context this = Some ctx"
    "config_hederaKit ctx = Some hk"
  shows "initializeTools K this =
    (case fst (build_catalogue K (builders_constructed this) hk sm (GenericPluginContext.logger ctx)) of
       Inl e \<Rightarrow>
         (Inl e, this\<lparr>constructed := constructed this @
            snd (build_catalogue K (builders_constructed this) hk sm
                   (GenericPluginContext.logger ctx))\<rparr>)
     | Inr ts \<Rightarrow>
         (Inr (), this\<lparr>tools := ts, constructed := constructed this @
            snd (build_catalogue K (builders_constructed this) hk sm
                   (GenericPluginContext.logger ctx))\<rparr>))"
  using assms
  by (simp add: initializeTools_def build_catalogue_def bindM_def new_HCS10Builder_def
      construct_def new_tools_eq modifyM_def
      split: option.splits sum.splits prod.splits)

lemma initialize_no_kit:
  "config_hederaKit ctx = None \<Longrightarrow>
   initialize K ctx this =
     (Inr (), this\<lparr>plugin_context := Some ctx,
                   logged := logged this @ [Warn (GenericPluginContext.logger ctx)
                     ''HederaKit not found in context. OpenConvAI tools will not be available.'']\<rparr>)"
  by (simp add: initialize_def bindM_def modifyM_def log_def)

lemma initialize_kit_fail:
  assumes "config_hederaKit ctx = Some hk"
    and "fst (build_catalogue K (builders_constructed this) hk (chosen_stateManager ctx)
                (GenericPluginContext.logger ctx)) = Inl e"
  shows "initialize K ctx this =
    (Inr (), this\<lparr>plugin_context := Some ctx,
                  OpenConvAIPlugin.stateManager := Some (chosen_stateManager ctx),
                  constructed := constructed this @
                    snd (build_catalogue K (builders_constructed this) hk (chosen_stateManager ctx)
                           (GenericPluginContext.logger ctx)),
                  logged := logged this @
                    [ErrorLog (GenericPluginContext.logger ctx)
                       ''Failed to initialize OpenConvAI plugin:'' e]\<rparr>)"
proof -
  let ?mid = "this\<lparr>plugin_context := Some ctx,
                   OpenConvAIPlugin.stateManager := Some (chosen_stateManager ctx)\<rparr>"
  have n: "builders_constructed ?mid = builders_constructed this"
    by (simp add: builders_constructed_def)
  have it: "initializeTools K ?mid =
      (Inl e, ?mid\<lparr>constructed := constructed this @
          snd (build_catalogue K (builders_constructed this) hk (chosen_stateManager ctx)
                 (GenericPluginContext.logger ctx))\<rparr>)"
    using assms by (simp add: initializeTools_eq [where hk = hk] n)
  show ?thesis
    using assms(1) it
    by (simp add: initialize_def bindM_def catchM_def modifyM_def log_def
        chosen_stateManager_def)
qed

lemma initialize_kit_ok:
  assumes "config_hederaKit ctx = Some hk"
    and "fst (build_catalogue K (builders_constructed this) hk (chosen_stateManager ctx)
                (GenericPluginContext.logger ctx)) = Inr ts"
  shows "initialize K ctx this =
    (Inr (), this\<lparr>plugin_context := Some ctx,
                  OpenConvAIPlugin.stateManager := Some (chosen_stateManager ctx),
                  tools := ts,
                  constructed := constructed this @
                    snd (build_catalogue K (builders_constructed this) hk (chosen_stateManager ctx)
                           (GenericPluginContext.logger ctx)),
                  logged := logged this @
                    [Info (GenericPluginContext.logger ctx)
                       ''OpenConvAI Standards Agent Kit Plugin initialized successfully'']\<rparr>)"
proof -
  let ?mid = "this\<lparr>plugin_context := Some ctx,
                   OpenConvAIPlugin.stateManager := Some (chosen_stateManager ctx)\<rparr>"
  have n: "builders_constructed ?mid = builders_constructed this"
    by (simp add: builders_constructed_def)
  have it: "initializeTools K ?mid =
      (Inr (), ?mid\<lparr>tools := ts, constructed := constructed this @
          snd (build_catalogue K (builders_constructed this) hk (chosen_stateManager ctx)
                 (GenericPluginContext.logger ctx))\<rparr>)"
    using assms by (simp add: initializeTools_eq [where hk = hk] n)
  show ?thesis
    using assms(1) it
    by (simp add: initialize_def bindM_def catchM_def modifyM_def log_def
        chosen_stateManager_def)
qed

lemma initialize_succeeds_iff:
  "initialize_succeeds K ctx this \<longleftrightarrow>
     (\<exists>hk ts. config_hederaKit ctx = Some hk \<and>
        fst (build_catalogue K (builders_constructed this) hk (chosen_stateManager ctx)
               (GenericPluginContext.logger ctx)) = Inr ts)"
proof (cases "config_hederaKit ctx")
  case None
  then show ?thesis by (simp add: initialize_succeeds_def initialize_no_kit)
next
  case (Some hk)
  show ?thesis
  proof (cases "fst (build_catalogue K (builders_constructed this) hk (chosen_stateManager ctx)
                       (GenericPluginContext.logger ctx))")
    case (Inl e)
    with Some show ?thesis by (simp add: initialize_succeeds_def initialize_kit_fail)
  next
    case (Inr ts)
    with Some show ?thesis by (simp add: initialize_succeeds_def initialize_kit_ok)
  qed
qed

lemma cleanup_eq:
  "cleanup this =
    (Inr (), case plugin_context this of
       None \<Rightarrow> this\<lparr>tools := [], OpenConvAIPlugin.stateManager := None\<rparr>
     | Some ctx \<Rightarrow> this\<lparr>tools := [], OpenConvAIPlugin.stateManager := None,
          logged := logged this @ [Info (GenericPluginContext.logger ctx)
                         ''OpenConvAI Standards Agent Kit Plugin cleaned up'']\<rparr>)"
  by (simp add: cleanup_def bindM_def modifyM_def returnM_def log_def split: option.splits)

lemma tools_unchanged_unless_success:
  "\<not> initialize_succeeds K ctx this \<Longrightarrow> tools (snd (initialize K ctx this)) = tools this"
proof (cases "config_hederaKit ctx")
  case None
  then show ?thesis by (simp add: initialize_no_kit)
next
  case (Some hk)
  assume ns: "\<not> initialize_succeeds K ctx this"
  show ?thesis
  proof (cases "fst (build_catalogue K (builders_constructed this) hk (chosen_stateManager ctx)
                       (GenericPluginContext.logger ctx))")
    case (Inl e)
    with Some show ?thesis by (simp add: initialize_kit_fail)
  next
    case (Inr ts)
    with Some ns show ?thesis by (simp add: initialize_succeeds_iff)
  qed
qed

lemma quiet_build:
  "build_catalogue quiet_agent_kit n hk sm lg =
     (Inr (map (\<lambda>c. \<lparr>tool_class = c, hederaKit = hk, hcs10Builder = HCS10Builder n hk sm,
                     logger = lg\<rparr>) catalogue_classes),
      Construct_HCS10Builder hk sm #
      map (\<lambda>c. Construct_tool c hk (HCS10Builder n hk sm) lg) catalogue_classes)"
  by (simp add: build_catalogue_def quiet_agent_kit_def catalogue_classes_def)

lemma failing_build:
  "build_catalogue failing_agent_kit n hk sm lg =
     (Inl (Error ''Failed to initialize HCS10 client''), [Construct_HCS10Builder hk sm])"
  by (simp add: build_catalogue_def failing_agent_kit_def)

lemma tools_stay_empty:
  "tools this = [] \<Longrightarrow> no_successful_initialize K cs this \<Longrightarrow> tools (after_calls K cs this) = []"
proof (induction cs arbitrary: this)
  case Nil
  then show ?case by simp
next
  case (Cons c cs)
  have "tools (after_call K c this) = []"
  proof (cases c)
    case (Initialize ctx)
    with Cons.prems show ?thesis by (simp add: tools_unchanged_unless_success)
  next
    case Cleanup
    then show ?thesis by (simp add: cleanup_eq split: option.splits)
  qed
  moreover from Cons.prems have "no_successful_initialize K cs (after_call K c this)" by simp
  ultimately show ?case using Cons.IH by simp
qed

text \<open>
  Claim C8. \<^verbatim>\<open>getTools()\<close> returns the empty sequence in every state in which
  \<^verbatim>\<open>initialize()\<close> has not run successfully: from a new plugin, and from a plugin that was
  just cleaned up, any sequence of lifecycle calls none of which is a successful
  \<^verbatim>\<open>initialize\<close> leads to a state with an empty catalogue. \<^verbatim>\<open>cleanup()\<close> returns normally,
  empties the catalogue and releases the state manager.
\<close>

theorem getTools_empty_without_successful_initialize:
  assumes "start = new_OpenConvAIPlugin \<or> start = snd (cleanup this)"
    and "no_successful_initialize K cs start"
  shows "getTools (after_calls K cs start) = []
         \<and> fst (cleanup this) = Inr ()
         \<and> getTools (snd (cleanup this)) = []
         \<and> getStateManager (snd (cleanup this)) = None"
proof -
  have c: "tools (snd (cleanup this)) = []"
    "OpenConvAIPlugin.stateManager (snd (cleanup this)) = None"
    "fst (cleanup this) = Inr ()"
    by (simp_all add: cleanup_eq split: option.splits)
  from assms(1) c have "tools start = []"
    by (auto simp: new_OpenConvAIPlugin_def)
  from tools_stay_empty [OF this assms(2)] c show ?thesis
    by (simp add: getTools_def getStateManager_def)
qed

theorem getTools_empty_without_successful_initialize_witness:
  "no_successful_initialize failing_agent_kit
     [Initialize context_without_kit, Initialize context_with_kit, Cleanup, Initialize context_with_kit]
     new_OpenConvAIPlugin
   \<and> getTools (after_calls failing_agent_kit
       [Initialize context_without_kit, Initialize context_with_kit, Cleanup, Initialize context_with_kit]
       new_OpenConvAIPlugin) = []
   \<and> getTools (snd (cleanup (snd (initialize quiet_agent_kit context_with_kit new_OpenConvAIPlugin)))) = []
   \<and> getStateManager (snd (cleanup (snd (initialize quiet_agent_kit context_with_kit new_OpenConvAIPlugin)))) = None"
proof -
  let ?cs = "[Initialize context_without_kit, Initialize context_with_kit, Cleanup, Initialize context_with_kit]"
  note b = failing_build
  have n: "no_successful_initialize failing_agent_kit ?cs new_OpenConvAIPlugin"
    by (simp add: initialize_succeeds_iff context_without_kit_def context_with_kit_def
        chosen_stateManager_def b)
  from getTools_empty_without_successful_initialize
         [of new_OpenConvAIPlugin
             "snd (initialize quiet_agent_kit context_with_kit new_OpenConvAIPlugin)"
             failing_agent_kit ?cs] n
  show ?thesis by simp
qed







text \<open>
  Claim C9, as amended. \<^verbatim>\<open>initialize(context)\<close> of the plugin returns normally for every
  context, every state and every behaviour of the constructors. If the agent-kit handle
  is absent from the context, it logs the warning and leaves the catalogue as it was; if
  the handle is present and the construction of the catalogue throws an error, that error
  is logged and the catalogue is left as it was. So a catalogue that was empty, as in a new
  or cleaned-up plugin, is empty afterwards.
\<close>

theorem initialize_fails_soft:
  "fst (initialize K ctx this) = Inr ()
   \<and> (config_hederaKit ctx = None \<longrightarrow>
        getTools (snd (initialize K ctx this)) = getTools this
        \<and> logged (snd (initialize K ctx this)) =
            logged this @ [Warn (GenericPluginContext.logger ctx)
              ''HederaKit not found in context. OpenConvAI tools will not be available.''])
   \<and> (\<forall>e. config_hederaKit ctx \<noteq> None
           \<and> fst (initializeTools K
                    (this\<lparr>plugin_context := Some ctx,
                          OpenConvAIPlugin.stateManager := Some (chosen_stateManager ctx)\<rparr>)) = Inl e \<longrightarrow>
        getTools (snd (initialize K ctx this)) = getTools this
        \<and> logged (snd (initialize K ctx this)) =
            logged this @ [ErrorLog (GenericPluginContext.logger ctx)
              ''Failed to initialize OpenConvAI plugin:'' e])"
proof (cases "config_hederaKit ctx")
  case None
  then show ?thesis by (simp add: initialize_no_kit getTools_def)
next
  case (Some hk)
  let ?mid = "this\<lparr>plugin_context := Some ctx,
                   OpenConvAIPlugin.stateManager := Some (chosen_stateManager ctx)\<rparr>"
  let ?B = "build_catalogue K (builders_constructed this) hk (chosen_stateManager ctx)
              (GenericPluginContext.logger ctx)"
  have n: "builders_constructed ?mid = builders_constructed this"
    by (simp add: builders_constructed_def)
  have it: "fst (initializeTools K ?mid) =
      (case fst ?B of Inl e \<Rightarrow> Inl e | Inr ts \<Rightarrow> Inr ())"
    using Some by (simp add: initializeTools_eq [where hk = hk] n split: sum.splits)
  show ?thesis
  proof (cases "fst ?B")
    case (Inl e)
    with Some it show ?thesis
      by (simp add: initialize_kit_fail getTools_def)
  next
    case (Inr ts)
    with Some it show ?thesis
      by (simp add: initialize_kit_ok)
  qed
qed

theorem initialize_fails_soft_witness:
  "config_hederaKit context_without_kit = None
   \<and> fst (initialize failing_agent_kit context_without_kit new_OpenConvAIPlugin) = Inr ()
   \<and> getTools (snd (initialize failing_agent_kit context_without_kit new_OpenConvAIPlugin)) = []
   \<and> logged (snd (initialize failing_agent_kit context_without_kit new_OpenConvAIPlugin)) =
       [Warn ''test'' ''HederaKit not found in context. OpenConvAI tools will not be available.'']
   \<and> config_hederaKit context_with_kit \<noteq> None
   \<and> fst (initializeTools failing_agent_kit
        (new_OpenConvAIPlugin\<lparr>plugin_context := Some context_with_kit,
           OpenConvAIPlugin.stateManager := Some (chosen_stateManager context_with_kit)\<rparr>)) =
       Inl (Error ''Failed to initialize HCS10 client'')
   \<and> fst (initialize failing_agent_kit context_with_kit new_OpenConvAIPlugin) = Inr ()
   \<and> getTools (snd (initialize failing_agent_kit context_with_kit new_OpenConvAIPlugin)) = []
   \<and> logged (snd (initialize failing_agent_kit context_with_kit new_OpenConvAIPlugin)) =
       [ErrorLog ''test'' ''Failed to initialize OpenConvAI plugin:''
          (Error ''Failed to initialize HCS10 client'')]"
proof -
  have e: "getTools (new_OpenConvAIPlugin :: string OpenConvAIPlugin) = []"
    by (simp add: getTools_def new_OpenConvAIPlugin_def)
  have t: "fst (initializeTools failing_agent_kit
        (new_OpenConvAIPlugin\<lparr>plugin_context := Some context_with_kit,
           OpenConvAIPlugin.stateManager := Some (chosen_stateManager context_with_kit)\<rparr>)) =
       Inl (Error ''Failed to initialize HCS10 client'')"
    by (simp add: initializeTools_eq [where hk = "''mockHederaKit''"] context_with_kit_def
        failing_build)
  have l: "logged (new_OpenConvAIPlugin :: string OpenConvAIPlugin) = []"
    by (simp add: new_OpenConvAIPlugin_def)
  from initialize_fails_soft [of failing_agent_kit context_without_kit new_OpenConvAIPlugin]
    initialize_fails_soft [of failing_agent_kit context_with_kit new_OpenConvAIPlugin] e t l
  show ?thesis
    by (simp add: context_without_kit_def context_with_kit_def)
qed

text \<open>
  Claim C9 as stated says that the catalogue is empty after such an \<^verbatim>\<open>initialize\<close>. On a
  plugin that was initialized successfully and not cleaned up, an \<^verbatim>\<open>initialize\<close> with a
  context without the handle, and one in which the builder's constructor throws, both
  return normally without succeeding, and the catalogue still has its eleven entries.
\<close>

theorem reinitialize_keeps_catalogue:
  "initialize_succeeds quiet_agent_kit context_with_kit new_OpenConvAIPlugin
   \<and> fst (initialize quiet_agent_kit context_without_kit
        (snd (initialize quiet_agent_kit context_with_kit new_OpenConvAIPlugin))) = Inr ()
   \<and> length (getTools (snd (initialize quiet_agent_kit context_without_kit
        (snd (initialize quiet_agent_kit context_with_kit new_OpenConvAIPlugin))))) = 11
   \<and> \<not> initialize_succeeds failing_agent_kit context_with_kit
        (snd (initialize quiet_agent_kit context_with_kit new_OpenConvAIPlugin))
   \<and> fst (initialize failing_agent_kit context_with_kit
        (snd (initialize quiet_agent_kit context_with_kit new_OpenConvAIPlugin))) = Inr ()
   \<and> length (getTools (snd (initialize failing_agent_kit context_with_kit
        (snd (initialize quiet_agent_kit context_with_kit new_OpenConvAIPlugin))))) = 11"
proof -
  let ?p = "snd (initialize quiet_agent_kit context_with_kit new_OpenConvAIPlugin)"
  have k: "config_hederaKit context_with_kit = Some ''mockHederaKit''"
    "config_hederaKit context_without_kit = None"
    by (simp_all add: context_with_kit_def context_without_kit_def)
  have s: "initialize_succeeds quiet_agent_kit context_with_kit new_OpenConvAIPlugin"
    by (simp add: initialize_succeeds_iff quiet_build k)
  have q: "fst (build_catalogue quiet_agent_kit n hk sm lg) =
      Inr (map (\<lambda>c. \<lparr>tool_class = c, hederaKit = hk, hcs10Builder = HCS10Builder n hk sm,
                     logger = lg\<rparr>) catalogue_classes)" for n and hk lg :: string and sm
    by (simp add: quiet_build)
  have l: "length (tools ?p) = 11"
    by (simp add: initialize_kit_ok [OF k(1) q] catalogue_classes_def)
  have f: "fst (build_catalogue failing_agent_kit n hk sm lg) =
      Inl (Error ''Failed to initialize HCS10 client'')" for n and hk lg :: string and sm
    by (simp add: failing_build)
  have ns: "\<not> initialize_succeeds failing_agent_kit context_with_kit ?p"
    by (simp add: initialize_succeeds_iff k f)
  have a: "fst (initialize quiet_agent_kit context_without_kit ?p) = Inr ()"
    "tools (snd (initialize quiet_agent_kit context_without_kit ?p)) = tools ?p"
    by (simp_all add: initialize_no_kit [OF k(2)])
  have b: "fst (initialize failing_agent_kit context_with_kit ?p) = Inr ()"
    "tools (snd (initialize failing_agent_kit context_with_kit ?p)) = tools ?p"
    by (simp_all add: initialize_kit_fail [OF k(1) f])
  from s ns a b l show ?thesis
    by (simp add: getTools_def)
qed

lemma stateManager_stays_None:
  "OpenConvAIPlugin.stateManager this = None \<Longrightarrow>
   \<forall>c \<in> set cs. (case c of Initialize ctx \<Rightarrow> config_hederaKit ctx = None | Cleanup \<Rightarrow> True) \<Longrightarrow>
   OpenConvAIPlugin.stateManager (after_calls K cs this) = None"
proof (induction cs arbitrary: this)
  case Nil
  then show ?case by simp
next
  case (Cons c cs)
  have "OpenConvAIPlugin.stateManager (after_call K c this) = None"
  proof (cases c)
    case (Initialize ctx)
    with Cons.prems show ?thesis by (simp add: initialize_no_kit)
  next
    case Cleanup
    then show ?thesis by (simp add: cleanup_eq split: option.splits)
  qed
  with Cons show ?case by simp
qed

text \<open>
  Claim C10, as amended. \<^verbatim>\<open>getStateManager()\<close> never throws: it returns the field, which is
  undefined in a new plugin. An \<^verbatim>\<open>initialize\<close> whose context has no agent-kit handle leaves
  the field as it was; an \<^verbatim>\<open>initialize\<close> whose context has the handle sets it to the state
  manager of the context, or else to a new default one, whether or not the construction
  of the catalogue then succeeds; \<^verbatim>\<open>cleanup\<close> makes it undefined again. So from a new or a
  cleaned-up plugin it stays undefined as long as no \<^verbatim>\<open>initialize\<close> with a handle has run.
\<close>

theorem getStateManager_lifecycle:
  "getStateManager (new_OpenConvAIPlugin :: 'o OpenConvAIPlugin) = None
   \<and> (config_hederaKit ctx = None \<longrightarrow>
        getStateManager (snd (initialize K ctx this)) = getStateManager this)
   \<and> (config_hederaKit ctx \<noteq> None \<longrightarrow>
        getStateManager (snd (initialize K ctx this)) = Some (chosen_stateManager ctx))
   \<and> getStateManager (snd (cleanup this)) = None
   \<and> ((start = new_OpenConvAIPlugin \<or> start = snd (cleanup this))
        \<and> (\<forall>c \<in> set cs. case c of Initialize ctx \<Rightarrow> config_hederaKit ctx = None | Cleanup \<Rightarrow> True) \<longrightarrow>
        getStateManager (after_calls K cs start) = None)"
  for this :: "'o OpenConvAIPlugin"
proof -
  have a: "getStateManager (new_OpenConvAIPlugin :: 'o OpenConvAIPlugin) = None"
    by (simp add: getStateManager_def new_OpenConvAIPlugin_def)
  have b: "config_hederaKit ctx = None \<longrightarrow>
        getStateManager (snd (initialize K ctx this)) = getStateManager this"
    by (simp add: initialize_no_kit getStateManager_def)
  have c: "config_hederaKit ctx \<noteq> None \<longrightarrow>
        getStateManager (snd (initialize K ctx this)) = Some (chosen_stateManager ctx)"
  proof
    assume "config_hederaKit ctx \<noteq> None"
    then obtain hk where hk: "config_hederaKit ctx = Some hk" by auto
    show "getStateManager (snd (initialize K ctx this)) = Some (chosen_stateManager ctx)"
      by (cases "fst (build_catalogue K (builders_constructed this) hk (chosen_stateManager ctx)
                         (GenericPluginContext.logger ctx))")
        (simp_all add: initialize_kit_fail [OF hk] initialize_kit_ok [OF hk] getStateManager_def)
  qed
  have d: "getStateManager (snd (cleanup this)) = None"
    by (simp add: cleanup_eq getStateManager_def split: option.splits)
  have e: "(start = new_OpenConvAIPlugin \<or> start = snd (cleanup this))
        \<and> (\<forall>c \<in> set cs. case c of Initialize ctx \<Rightarrow> config_hederaKit ctx = None | Cleanup \<Rightarrow> True) \<longrightarrow>
        getStateManager (after_calls K cs start) = None"
  proof
    assume h: "(start = new_OpenConvAIPlugin \<or> start = snd (cleanup this))
        \<and> (\<forall>c \<in> set cs. case c of Initialize ctx \<Rightarrow> config_hederaKit ctx = None | Cleanup \<Rightarrow> True)"
    with a d have "OpenConvAIPlugin.stateManager start = None"
      by (auto simp: getStateManager_def)
    with h show "getStateManager (after_calls K cs start) = None"
      by (simp add: stateManager_stays_None getStateManager_def)
  qed
  from a b c d e show ?thesis by blast
qed

theorem getStateManager_lifecycle_witness:
  "config_hederaKit context_without_kit = None
   \<and> config_hederaKit context_with_state \<noteq> None
   \<and> getStateManager (snd (initialize failing_agent_kit context_with_state new_OpenConvAIPlugin)) =
       Some (CustomState ''customStateManager'')
   \<and> getStateManager (snd (initialize failing_agent_kit context_without_kit
        (snd (initialize failing_agent_kit context_with_state new_OpenConvAIPlugin)))) =
       Some (CustomState ''customStateManager'')
   \<and> getStateManager (after_calls failing_agent_kit [Initialize context_without_kit, Cleanup]
        new_OpenConvAIPlugin) = None"
proof -
  have k: "config_hederaKit context_without_kit = None"
    "config_hederaKit context_with_state \<noteq> None"
    "chosen_stateManager context_with_state = CustomState ''customStateManager''"
    by (simp_all add: context_without_kit_def context_with_state_def chosen_stateManager_def)
  from getStateManager_lifecycle
         [where ctx = context_with_state and K = failing_agent_kit
            and this = new_OpenConvAIPlugin and start = new_OpenConvAIPlugin
            and cs = "[Initialize context_without_kit, Cleanup]"]
       getStateManager_lifecycle
         [where ctx = context_without_kit and K = failing_agent_kit
            and this = "snd (initialize failing_agent_kit context_with_state new_OpenConvAIPlugin)"
            and start = new_OpenConvAIPlugin and cs = "[]"]
       k
  show ?thesis by simp
qed

text \<open>
  Claim C10 as stated says that the state manager is returned only between a successful
  \<^verbatim>\<open>initialize\<close> and \<^verbatim>\<open>cleanup\<close>. When the builder's constructor throws, \<^verbatim>\<open>initialize\<close> does
  not succeed and the catalogue is empty, yet \<^verbatim>\<open>getStateManager()\<close> returns the state manager
  that was assigned before the construction started.
\<close>

theorem stateManager_kept_after_failed_construction:
  "\<not> initialize_succeeds failing_agent_kit context_with_kit new_OpenConvAIPlugin
   \<and> getTools (snd (initialize failing_agent_kit context_with_kit new_OpenConvAIPlugin)) = []
   \<and> getStateManager (snd (initialize failing_agent_kit context_with_kit new_OpenConvAIPlugin)) =
       Some OpenConvaiState"
proof -
  have k: "config_hederaKit context_with_kit = Some ''mockHederaKit''"
    by (simp add: context_with_kit_def)
  have c: "chosen_stateManager context_with_kit = OpenConvaiState"
    by (simp add: chosen_stateManager_def context_with_kit_def)
  show ?thesis
    by (simp add: initialize_succeeds_iff k failing_build
        initialize_kit_fail [OF k] getTools_def getStateManager_def c
        new_OpenConvAIPlugin_def)
qed


section \<open>The bootstrap wrapper: what its methods do\<close>

lemma string_includes_iff: "string_includes s t \<longleftrightarrow> (\<exists>ps ss. s = ps @ t @ ss)"
proof (induction s)
  case Nil
  then show ?case by auto
next
  case (Cons c cs)
  show ?case
  proof
    assume "string_includes (c # cs) t"
    then consider "prefix t (c # cs)" | "string_includes cs t" by auto
    then show "\<exists>ps ss. c # cs = ps @ t @ ss"
    proof cases
      case 1
      then obtain ss where "c # cs = t @ ss" by (auto simp: prefix_def)
      then have "c # cs = [] @ t @ ss" by simp
      then show ?thesis by blast
    next
      case 2
      with Cons.IH obtain ps ss where "cs = ps @ t @ ss" by auto
      then have "c # cs = (c # ps) @ t @ ss" by simp
      then show ?thesis by blast
    qed
  next
    assume "\<exists>ps ss. c # cs = ps @ t @ ss"
    then obtain ps ss where e: "c # cs = ps @ t @ ss" by auto
    show "string_includes (c # cs) t"
    proof (cases ps)
      case Nil
      with e have "prefix t (c # cs)" by (simp add: prefix_def)
      then show ?thesis by simp
    next
      case (Cons p ps')
      with e have "cs = ps' @ t @ ss" by simp
      with Cons.IH show ?thesis by auto
    qed
  qed
qed

lemma contains_ecdsa_iff:
  "contains_ecdsa_in_any_case tag \<longleftrightarrow> string_includes (toLowerCase tag) ''ecdsa''"
proof
  assume "contains_ecdsa_in_any_case tag"
  then obtain b r a where t: "tag = b @ r @ a" and r: "toLowerCase r = ''ecdsa''"
    unfolding contains_ecdsa_in_any_case_def by (elim exE conjE)
  have "toLowerCase tag = toLowerCase b @ toLowerCase r @ toLowerCase a"
    unfolding t toLowerCase_def by simp
  then have "toLowerCase tag = toLowerCase b @ ''ecdsa'' @ toLowerCase a"
    unfolding r .
  then have "\<exists>ps ss. toLowerCase tag = ps @ ''ecdsa'' @ ss"
    by (intro exI)
  then show "string_includes (toLowerCase tag) ''ecdsa''"
    unfolding string_includes_iff .
next
  assume "string_includes (toLowerCase tag) ''ecdsa''"
  then obtain ps ss where "map toLowerCase_char tag = ps @ (''ecdsa'' @ ss)"
    unfolding string_includes_iff toLowerCase_def by (elim exE)
  then have "\<exists>us vs. tag = us @ vs \<and> ps = map toLowerCase_char us
               \<and> ''ecdsa'' @ ss = map toLowerCase_char vs"
    by (simp only: map_eq_append_conv)
  then obtain b rest where 1: "tag = b @ rest"
      and 2: "''ecdsa'' @ ss = map toLowerCase_char rest"
    by (elim exE conjE)
  from 2 have "\<exists>us vs. rest = us @ vs \<and> ''ecdsa'' = map toLowerCase_char us
               \<and> ss = map toLowerCase_char vs"
    by (simp only: append_eq_map_conv)
  then obtain r a where 3: "rest = r @ a" and 4: "''ecdsa'' = map toLowerCase_char r"
    by (elim exE conjE)
  have "tag = b @ r @ a \<and> toLowerCase r = ''ecdsa''"
    unfolding 1 3 toLowerCase_def using 4 [symmetric] by simp
  then show "contains_ecdsa_in_any_case tag"
    unfolding contains_ecdsa_in_any_case_def by (intro exI)
qed

lemma keyType_returned_tag:
  "keyType accountInfo = (case returned_tag accountInfo of None \<Rightarrow> [] | Some t \<Rightarrow> t)"
  by (simp add: keyType_def returned_tag_def split: option.splits)

lemma selects_ecdsa_iff:
  "string_includes (toLowerCase (keyType accountInfo)) ''ecdsa'' \<longleftrightarrow>
     (\<exists>tag. returned_tag accountInfo = Some tag \<and> contains_ecdsa_in_any_case tag)"
  by (cases "returned_tag accountInfo")
    (simp_all add: keyType_returned_tag contains_ecdsa_iff toLowerCase_def)



lemma parser_calls_additive: "additive parser_calls"
  by (simp add: additive_def parser_calls_def)

lemma assembled_configs_append:
  "assembled_configs (xs @ ys) = assembled_configs xs @ assembled_configs ys"
  by (induction xs rule: assembled_configs.induct) simp_all

lemma assembled_configs_additive: "additive assembled_configs"
  by (simp add: additive_def assembled_configs_append)

lemma emits_invoke: "additive obs \<Longrightarrow> obs [c] = ys \<Longrightarrow> emits obs (invoke c r) ys"
  by (simp add: emits_def additive_def invoke_def)

lemma emits_throwM: "emits obs (throwM e) []"
  by (simp add: emits_def throwM_def)

lemma emits_modifyM: "(\<And>this. calls (g this) = calls this) \<Longrightarrow> emits obs (modifyM g) []"
  by (simp add: emits_def modifyM_def)

lemma emits_bindM_after:
  assumes "emits obs m ys" and "\<And>x. emits obs (f x) []"
  shows "emits obs (bindM m f) ys"
  unfolding emits_def
proof
  fix this
  show "obs (calls (snd (bindM m f this))) = obs (calls this) @ ys"
  proof (cases "m this")
    case (Pair r this')
    with assms(1) have m: "obs (calls this') = obs (calls this) @ ys"
      by (auto simp: emits_def dest: spec [where x = this])
    show ?thesis
    proof (cases r)
      case (Inl e)
      with Pair m show ?thesis by (simp add: bindM_def)
    next
      case (Inr x)
      from assms(2) [of x] have "obs (calls (snd (f x this'))) = obs (calls this') @ []"
        unfolding emits_def by blast
      with Pair Inr m show ?thesis by (simp add: bindM_def)
    qed
  qed
qed

lemma emits_bindM_before:
  assumes "additive obs" and "obs [c] = []" and "emits obs (f x) ys"
  shows "emits obs (bindM (invoke c (Inr x)) f) ys"
  using assms by (simp add: emits_def additive_def bindM_def invoke_def)

lemma emits_catchM:
  assumes "emits obs m ys" and "\<And>e. emits obs (h e) []"
  shows "emits obs (catchM m h) ys"
  unfolding emits_def
proof
  fix this
  show "obs (calls (snd (catchM m h this))) = obs (calls this) @ ys"
  proof (cases "m this")
    case (Pair r this')
    with assms(1) have m: "obs (calls this') = obs (calls this) @ ys"
      by (auto simp: emits_def dest: spec [where x = this])
    show ?thesis
    proof (cases r)
      case (Inl e)
      from assms(2) [of e] have "obs (calls (snd (h e this'))) = obs (calls this') @ []"
        unfolding emits_def by blast
      with Pair Inl m show ?thesis by (simp add: catchM_def)
    next
      case (Inr x)
      with Pair m show ?thesis by (simp add: catchM_def)
    qed
  qed
qed

lemma bindM_invoke_Inr: "bindM (invoke c (Inr x)) f this = f x (this\<lparr>calls := calls this @ [c]\<rparr>)"
  by (simp add: bindM_def invoke_def)

lemma emits_catch_block: "additive obs \<Longrightarrow> obs [Logger_error lg ''Failed to initialize StandardsKit:'' e] = [] \<Longrightarrow>
   emits obs (catch_block lg e) []"
  unfolding catch_block_def
  by (intro emits_bindM_after emits_invoke emits_throwM) simp_all

lemma parser_calls_single: "parser_calls [c] = (if is_parser_call c then [c] else [])"
  by (simp add: parser_calls_def)

lemma emits_parser_calls:
  assumes "HederaMirrorNode_throws H net lg = None"
    and "requestAccount H (HederaMirrorNode net lg) acct = Inr accountInfo"
  shows "emits parser_calls (catchM (try_block H net lg acct pkey assemble) (catch_block lg))
           [if string_includes (toLowerCase (keyType accountInfo)) ''ecdsa''
            then FromStringECDSA pkey else FromStringED25519 pkey]"
proof -
  note a = parser_calls_additive
  show ?thesis
    unfolding try_block_def assms(1) throws_def option.case
    apply (rule emits_catchM)
     apply (rule emits_bindM_before [OF a])
      apply (simp add: parser_calls_single)
     apply (simp only: assms(2))
     apply (rule emits_bindM_before [OF a])
      apply (simp add: parser_calls_single)
     apply (rule emits_bindM_after)
      apply (simp add: emits_invoke [OF a] parser_calls_single)
     apply (intro emits_bindM_after emits_invoke [OF a] emits_modifyM; simp add: parser_calls_single)
    apply (rule emits_catch_block [OF a])
    apply (simp add: parser_calls_single)
    done
qed

lemma emits_assembled_configs:
  assumes "HederaMirrorNode_throws H net lg = None"
    and "requestAccount H (HederaMirrorNode net lg) acct = Inr accountInfo"
    and "selected_parser_throws H accountInfo pkey = None"
    and "ServerSigner_throws H acct (selected_key accountInfo pkey) net = None"
    and "getAllHederaCorePlugins H = Inr core"
  shows "emits assembled_configs (catchM (try_block H net lg acct pkey assemble) (catch_block lg))
           [assemble core]"
proof -
  note a = assembled_configs_additive
  have p: "(if string_includes (toLowerCase (keyType accountInfo)) ''ecdsa''
            then invoke (FromStringECDSA pkey)
                   (throws (fromStringECDSA_throws H pkey) (ECDSA_key pkey))
            else invoke (FromStringED25519 pkey)
                   (throws (fromStringED25519_throws H pkey) (ED25519_key pkey)))
        = (invoke (if string_includes (toLowerCase (keyType accountInfo)) ''ecdsa''
                  then FromStringECDSA pkey else FromStringED25519 pkey)
             (Inr (selected_key accountInfo pkey)) :: (PrivateKey, 'a StandardsKit) prog)"
    using assms(3) by (simp add: selected_parser_throws_def selected_key_def throws_def split: if_splits)
  show ?thesis
    unfolding try_block_def assms(1) throws_def option.case
    apply (rule emits_catchM)
     apply (rule emits_bindM_before [OF a])
      apply simp
     apply (simp only: assms(2))
     apply (rule emits_bindM_before [OF a])
      apply simp
     apply (fold throws_def)
     apply (simp only: p)
     apply (rule emits_bindM_before [OF a])
      apply simp
     apply (simp only: assms(4) assms(5) throws_def option.case)
     apply (rule emits_bindM_before [OF a])
      apply simp
     apply (rule emits_bindM_before [OF a])
      apply simp
     apply (intro emits_bindM_after emits_invoke [OF a] emits_modifyM; simp)
    apply (rule emits_catch_block [OF a])
    apply simp
    done
qed

lemma initialize_unfold:
  assumes "accountId (options this) = Some acct" "privateKey (options this) = Some pkey"
    "acct \<noteq> []" "pkey \<noteq> []"
  shows "StandardsKit_initialize H this =
           catchM (try_block H (destructure_default (network (options this)) ''testnet'')
                     (StandardsKit.logger this) acct pkey
                     (\<lambda>core. agentConfig this acct
                        (allPlugins this (destructure_default (additionalPlugins (options this)) []) core)))
             (catch_block (StandardsKit.logger this)) this"
    and "StandardsKit_initialize_v1 H this =
           catchM (try_block H (destructure_default (network (options this)) ''testnet'')
                     (StandardsKit.logger this) acct pkey
                     (\<lambda>core. agentConfig_v1 this acct core))
             (catch_block (StandardsKit.logger this)) this"
  using assms by (simp_all add: StandardsKit_initialize_def StandardsKit_initialize_v1_def Let_def)

text \<open>
  Claim C1. Suppose the credentials are present and not empty, the mirror node is
  constructed and the lookup returns a result. If that result has a key-type tag and the
  tag contains "ecdsa" in any letter case, then \<^verbatim>\<open>initialize()\<close> calls exactly one key parser,
  \<^verbatim>\<open>PrivateKey.fromStringECDSA\<close>, with the private-key string as given. For every other
  result (no account record, no key, no tag, or a tag without "ecdsa") it calls exactly
  one key parser, \<^verbatim>\<open>PrivateKey.fromStringED25519\<close>, with that string. This holds for both
  revisions of the class.
\<close>

theorem key_type_selects_parser:
  assumes "accountId (options this) = Some acct" and "privateKey (options this) = Some pkey"
    and "acct \<noteq> []" and "pkey \<noteq> []"
    and "HederaMirrorNode_throws H (destructure_default (network (options this)) ''testnet'')
           (StandardsKit.logger this) = None"
    and "requestAccount H
           (HederaMirrorNode (destructure_default (network (options this)) ''testnet'')
              (StandardsKit.logger this)) acct = Inr accountInfo"
  shows "parser_calls (calls (snd (StandardsKit_initialize H this))) =
           parser_calls (calls this) @
           [if \<exists>tag. returned_tag accountInfo = Some tag \<and> contains_ecdsa_in_any_case tag
            then FromStringECDSA pkey else FromStringED25519 pkey]
       \<and> parser_calls (calls (snd (StandardsKit_initialize_v1 H this))) =
           parser_calls (calls this) @
           [if \<exists>tag. returned_tag accountInfo = Some tag \<and> contains_ecdsa_in_any_case tag
            then FromStringECDSA pkey else FromStringED25519 pkey]"
proof -
  note e = emits_parser_calls [OF assms(5) assms(6), unfolded emits_def, rule_format]
  show ?thesis
    unfolding initialize_unfold [OF assms(1-4)] selects_ecdsa_iff [symmetric]
    by (simp add: e)
qed

lemma lower_ecdsa: "toLowerCase ''ECDSA_SECP256K1'' = ''ecdsa_secp256k1''"
  by code_simp

lemma lower_ed25519: "toLowerCase ''ED25519'' = ''ed25519''"
  by code_simp

lemma test_kit_simps:
  "accountId (options (new_StandardsKit test_options)) = Some ''0.0.12345''"
  "privateKey (options (new_StandardsKit test_options)) = Some ''mock-private-key''"
  "destructure_default (network (options (new_StandardsKit test_options))) ''testnet'' = ''testnet''"
  "StandardsKit.logger (new_StandardsKit test_options) = Logger ''StandardsKit''"
  "calls (new_StandardsKit test_options) = []"
  by (simp_all add: new_StandardsKit_def test_options_def destructure_default_def)

theorem key_type_selects_parser_witness:
  "parser_calls (calls (snd (StandardsKit_initialize (host_reporting ''ECDSA_SECP256K1'')
      (new_StandardsKit test_options)))) = [FromStringECDSA ''mock-private-key'']
   \<and> parser_calls (calls (snd (StandardsKit_initialize_v1 (host_reporting ''ED25519'')
      (new_StandardsKit test_options)))) = [FromStringED25519 ''mock-private-key'']"
proof -
  have r: "returned_tag (Some \<lparr>key = Some \<lparr>key_type = Some tag\<rparr>\<rparr>) = Some tag" for tag
    by (simp add: returned_tag_def)
  have c: "contains_ecdsa_in_any_case ''ECDSA_SECP256K1''"
    "\<not> contains_ecdsa_in_any_case ''ED25519''"
    by (simp_all add: contains_ecdsa_iff lower_ecdsa lower_ed25519)
  have h: "HederaMirrorNode_throws (host_reporting tag) ''testnet'' (Logger ''StandardsKit'') = None"
    "requestAccount (host_reporting tag) (HederaMirrorNode ''testnet'' (Logger ''StandardsKit''))
       ''0.0.12345'' = Inr (Some \<lparr>key = Some \<lparr>key_type = Some tag\<rparr>\<rparr>)" for tag
    by (simp_all add: host_reporting_def)
  from key_type_selects_parser
         [where this = "new_StandardsKit test_options" and H = "host_reporting ''ECDSA_SECP256K1''"
            and acct = "''0.0.12345''" and pkey = "''mock-private-key''"
            and accountInfo = "Some \<lparr>key = Some \<lparr>key_type = Some ''ECDSA_SECP256K1''\<rparr>\<rparr>"]
       key_type_selects_parser
         [where this = "new_StandardsKit test_options" and H = "host_reporting ''ED25519''"
            and acct = "''0.0.12345''" and pkey = "''mock-private-key''"
            and accountInfo = "Some \<lparr>key = Some \<lparr>key_type = Some ''ED25519''\<rparr>\<rparr>"]
  show ?thesis
    by (simp add: test_kit_simps h r c parser_calls_def)
qed

text \<open>
  Claim C2. If \<^verbatim>\<open>accountId\<close> or \<^verbatim>\<open>privateKey\<close> is absent or the empty string, \<^verbatim>\<open>initialize()\<close>
  rejects with the error "Account ID and private key are required" and leaves the wrapper
  as it was: no call has been made on any collaborator, so no mirror node was constructed
  and no lookup attempted. This holds for both revisions of the class.
\<close>

theorem missing_credentials_rejected:
  assumes "accountId (options this) = None \<or> accountId (options this) = Some []
           \<or> privateKey (options this) = None \<or> privateKey (options this) = Some []"
  shows "StandardsKit_initialize H this =
           (Inl (Error ''Account ID and private key are required''), this)
       \<and> calls (snd (StandardsKit_initialize H this)) = calls this
       \<and> StandardsKit_initialize_v1 H this =
           (Inl (Error ''Account ID and private key are required''), this)"
  using assms
  by (auto simp: StandardsKit_initialize_def StandardsKit_initialize_v1_def Let_def throwM_def
      split: option.splits)

theorem missing_credentials_rejected_witness:
  "privateKey (options (new_StandardsKit (test_options\<lparr>accountId := Some [], privateKey := Some []\<rparr>)))
     = Some []
   \<and> fst (StandardsKit_initialize (host_reporting ''ED25519'')
        (new_StandardsKit (test_options\<lparr>accountId := Some [], privateKey := Some []\<rparr>))) =
       Inl (Error ''Account ID and private key are required'')
   \<and> calls (snd (StandardsKit_initialize (host_reporting ''ED25519'')
        (new_StandardsKit (test_options\<lparr>accountId := Some [], privateKey := Some []\<rparr>)))) = []"
proof -
  have p: "privateKey (options (new_StandardsKit (test_options\<lparr>accountId := Some [], privateKey := Some []\<rparr>)))
     = Some []"
    "calls (new_StandardsKit (test_options\<lparr>accountId := Some [], privateKey := Some []\<rparr>)) = []"
    by (simp_all add: new_StandardsKit_def)
  from missing_credentials_rejected
         [where this = "new_StandardsKit (test_options\<lparr>accountId := Some [], privateKey := Some []\<rparr>)"
            and H = "host_reporting ''ED25519''"] p
  show ?thesis by simp
qed

lemma assembly_inputsD:
  assumes "assembly_inputs H this = Some (acct, core)"
  obtains pkey accountInfo where
    "accountId (options this) = Some acct" "privateKey (options this) = Some pkey"
    "acct \<noteq> []" "pkey \<noteq> []"
    "HederaMirrorNode_throws H (destructure_default (network (options this)) ''testnet'')
       (StandardsKit.logger this) = None"
    "requestAccount H
       (HederaMirrorNode (destructure_default (network (options this)) ''testnet'')
          (StandardsKit.logger this)) acct = Inr accountInfo"
    "selected_parser_throws H accountInfo pkey = None"
    "ServerSigner_throws H acct (selected_key accountInfo pkey)
       (destructure_default (network (options this)) ''testnet'') = None"
    "getAllHederaCorePlugins H = Inr core"
  using assms
  by (auto simp: assembly_inputs_def Let_def split: option.splits if_splits sum.splits)

lemma initialize_assembles:
  assumes "assembly_inputs H this = Some (acct, core)"
  shows "assembled_configs (calls (snd (StandardsKit_initialize H this))) =
           assembled_configs (calls this) @
           [agentConfig this acct
              (allPlugins this (destructure_default (additionalPlugins (options this)) []) core)]"
proof -
  from assms obtain pkey accountInfo where h:
    "accountId (options this) = Some acct" "privateKey (options this) = Some pkey"
    "acct \<noteq> []" "pkey \<noteq> []"
    and m: "HederaMirrorNode_throws H (destructure_default (network (options this)) ''testnet'')
       (StandardsKit.logger this) = None"
    and r: "requestAccount H
       (HederaMirrorNode (destructure_default (network (options this)) ''testnet'')
          (StandardsKit.logger this)) acct = Inr accountInfo"
    and p: "selected_parser_throws H accountInfo pkey = None"
    and s: "ServerSigner_throws H acct (selected_key accountInfo pkey)
       (destructure_default (network (options this)) ''testnet'') = None"
    and c: "getAllHederaCorePlugins H = Inr core"
    by (rule assembly_inputsD)
  note e = emits_assembled_configs [OF m r p s c, unfolded emits_def, rule_format]
  show ?thesis
    unfolding initialize_unfold [OF h] by (simp add: e)
qed

lemma config_plugins_agentConfig: "config_plugins (agentConfig this acct ps) = Some ps"
  by (simp add: config_plugins_def agentConfig_def Let_def)

text \<open>
  Claim C4. Whenever \<^verbatim>\<open>initialize()\<close> gets as far as assembling the configuration, it
  hands exactly one configuration to the agent's constructor, and the plugin list of that
  configuration is the wrapper's own plugin, then the additional plugins of the options
  in their given order (none when the option is absent), then the core plugins that
  \<^verbatim>\<open>getAllHederaCorePlugins()\<close> returned.
\<close>

theorem plugin_list_order:
  assumes "assembly_inputs H this = Some (acct, core)"
  shows "map config_plugins (assembled_configs (calls (snd (StandardsKit_initialize H this)))) =
           map config_plugins (assembled_configs (calls this)) @
           [Some ([OpenConvAIPluginObj (getPlugin this)]
                  @ destructure_default (additionalPlugins (options this)) []
                  @ core)]"
  by (simp add: initialize_assembles [OF assms] config_plugins_agentConfig allPlugins_def
      getPlugin_def)

lemma config_preamble_agentConfig:
  "config_value ''customSystemMessagePreamble'' (agentConfig this acct ps) =
     Some (StringV (case customSystemMessagePreamble (options this) of
                      None \<Rightarrow> defaultSystemMessage acct
                    | Some p \<Rightarrow> if p = [] then defaultSystemMessage acct else p))"
  by (simp add: config_value_def agentConfig_def Let_def)

text \<open>
  Claim C5, as amended. For every caller-supplied \<^verbatim>\<open>customSystemMessagePreamble\<close> that is
  not the empty string, the \<^verbatim>\<open>customSystemMessagePreamble\<close> of the configuration that
  \<^verbatim>\<open>initialize()\<close> assembles is that string exactly: the default text is replaced, not
  concatenated.
\<close>

theorem custom_preamble_replaces_default:
  assumes "assembly_inputs H this = Some (acct, core)"
    and "customSystemMessagePreamble (options this) = Some p"
    and "p \<noteq> []"
  shows "map (config_value ''customSystemMessagePreamble'') (assembled_configs (calls (snd (StandardsKit_initialize H this)))) =
           map (config_value ''customSystemMessagePreamble'') (assembled_configs (calls this)) @ [Some (StringV p)]"
  using assms(2,3)
  by (simp add: initialize_assembles [OF assms(1)] config_preamble_agentConfig)

lemma assembly_inputs_test:
  assumes "accountId opts = Some ''0.0.12345''" "privateKey opts = Some ''mock-private-key''"
    "network opts = None"
  shows "assembly_inputs (host_reporting ''ED25519'') (new_StandardsKit opts) =
           Some (''0.0.12345'', [HostPlugin ''core-plugin''])"
  using assms
  by (simp add: assembly_inputs_def Let_def new_StandardsKit_def host_reporting_def
      destructure_default_def selected_parser_throws_def selected_key_def keyType_def
      lower_ed25519)

lemma new_kit_fields:
  "calls (new_StandardsKit opts) = []"
  "options (new_StandardsKit opts) = opts"
  "getPlugin (new_StandardsKit opts) = new_OpenConvAIPlugin"
  "conversationalAgent (new_StandardsKit opts) = None"
  by (simp_all add: new_StandardsKit_def getPlugin_def)

theorem plugin_list_order_witness:
  "assembly_inputs (host_reporting ''ED25519'') (new_StandardsKit options_with_extra_plugin) =
     Some (''0.0.12345'', [HostPlugin ''core-plugin''])
   \<and> map config_plugins (assembled_configs (calls (snd (StandardsKit_initialize
        (host_reporting ''ED25519'') (new_StandardsKit options_with_extra_plugin))))) =
       [Some [OpenConvAIPluginObj new_OpenConvAIPlugin, HostPlugin ''mock-plugin'',
              HostPlugin ''core-plugin'']]"
proof -
  have a: "assembly_inputs (host_reporting ''ED25519'') (new_StandardsKit options_with_extra_plugin) =
     Some (''0.0.12345'', [HostPlugin ''core-plugin''])"
    by (rule assembly_inputs_test) (simp_all add: options_with_extra_plugin_def test_options_def)
  have e: "destructure_default (additionalPlugins options_with_extra_plugin) [] =
     [HostPlugin ''mock-plugin'']"
    by (simp add: options_with_extra_plugin_def destructure_default_def)
  from plugin_list_order [OF a] a show ?thesis
    by (simp add: new_kit_fields e)
qed

theorem custom_preamble_replaces_default_witness:
  "assembly_inputs (host_reporting ''ED25519'') (new_StandardsKit options_with_custom_preamble) =
     Some (''0.0.12345'', [HostPlugin ''core-plugin''])
   \<and> customSystemMessagePreamble (options (new_StandardsKit options_with_custom_preamble)) =
       Some ''Custom instructions here''
   \<and> map (config_value ''customSystemMessagePreamble'') (assembled_configs (calls (snd (StandardsKit_initialize
        (host_reporting ''ED25519'') (new_StandardsKit options_with_custom_preamble))))) =
       [Some (StringV ''Custom instructions here'')]"
proof -
  have a: "assembly_inputs (host_reporting ''ED25519'') (new_StandardsKit options_with_custom_preamble) =
     Some (''0.0.12345'', [HostPlugin ''core-plugin''])"
    by (rule assembly_inputs_test) (simp_all add: options_with_custom_preamble_def test_options_def)
  have p: "customSystemMessagePreamble (options (new_StandardsKit options_with_custom_preamble)) =
       Some ''Custom instructions here''"
    by (simp add: new_kit_fields options_with_custom_preamble_def)
  have n: "''Custom instructions here'' \<noteq> []" by simp
  from custom_preamble_replaces_default [OF a p n] a p show ?thesis
    by (simp add: new_kit_fields)
qed

text \<open>
  Claim C5 as stated covers every supplied string. With the empty string supplied, the
  configuration carries the default preamble for the account, which is not the supplied
  string.
\<close>

theorem empty_preamble_gives_default:
  "customSystemMessagePreamble (options (new_StandardsKit options_with_empty_preamble)) = Some []
   \<and> map (config_value ''customSystemMessagePreamble'') (assembled_configs (calls (snd (StandardsKit_initialize
        (host_reporting ''ED25519'') (new_StandardsKit options_with_empty_preamble))))) =
       [Some (StringV (defaultSystemMessage ''0.0.12345''))]
   \<and> defaultSystemMessage ''0.0.12345'' \<noteq> []"
proof -
  have a: "assembly_inputs (host_reporting ''ED25519'') (new_StandardsKit options_with_empty_preamble) =
     Some (''0.0.12345'', [HostPlugin ''core-plugin''])"
    by (rule assembly_inputs_test) (simp_all add: options_with_empty_preamble_def test_options_def)
  have p: "customSystemMessagePreamble (options (new_StandardsKit options_with_empty_preamble)) =
       Some []"
    by (simp add: new_kit_fields options_with_empty_preamble_def)
  have d: "defaultSystemMessage ''0.0.12345'' \<noteq> []"
    by (simp add: defaultSystemMessage_def)
  from p d show ?thesis
    by (simp add: initialize_assembles [OF a] config_preamble_agentConfig new_kit_fields)
qed

lemma agentConfig_keys:
  "config_keys (agentConfig this acct ps) =
     [''pluginConfig'', ''openAIApiKey'', ''openAIModelName'', ''verbose'', ''operationalMode'',
      ''userAccountId'', ''customSystemMessagePreamble'']
     @ (if customSystemMessagePostamble (options this) = None then []
        else [''customSystemMessagePostamble''])
     @ (if scheduleUserTransactionsInBytesMode (options this) = None then []
        else [''scheduleUserTransactionsInBytesMode''])
     @ (if mirrorNodeConfig (options this) = None then [] else [''mirrorNodeConfig''])
     @ (if disableLogging (options this) = None then [] else [''disableLogging''])"
  by (simp add: config_keys_def agentConfig_def Let_def split: option.splits)

lemma agentConfig_fixed_values:
  "config_value ''openAIModelName'' (agentConfig this acct ps) =
     Some (StringV (destructure_default (openAIModelName (options this)) ''gpt-4o''))"
  "config_value ''verbose'' (agentConfig this acct ps) =
     Some (BoolV (destructure_default (verbose (options this)) False))"
  "config_value ''operationalMode'' (agentConfig this acct ps) =
     Some (StringV (destructure_default (operationalMode (options this)) ''autonomous''))"
  "config_value ''userAccountId'' (agentConfig this acct ps) =
     Some (case userAccountId (options this) of None \<Rightarrow> Undefined | Some u \<Rightarrow> StringV u)"
  by (simp_all add: config_value_def agentConfig_def Let_def)

lemma agentConfig_optional_values:
  "config_value ''customSystemMessagePostamble'' (agentConfig this acct ps) =
     map_option StringV (customSystemMessagePostamble (options this))"
  "config_value ''scheduleUserTransactionsInBytesMode'' (agentConfig this acct ps) =
     map_option BoolV (scheduleUserTransactionsInBytesMode (options this))"
  "config_value ''mirrorNodeConfig'' (agentConfig this acct ps) =
     map_option OpaqueV (mirrorNodeConfig (options this))"
  "config_value ''disableLogging'' (agentConfig this acct ps) =
     map_option BoolV (disableLogging (options this))"
  by (simp_all add: config_value_def agentConfig_def Let_def split: option.splits)

text \<open>
  Claim C6, as amended. The configuration that \<^verbatim>\<open>initialize()\<close> assembles always has the
  keys \<^verbatim>\<open>pluginConfig\<close>, \<^verbatim>\<open>openAIApiKey\<close>, \<^verbatim>\<open>openAIModelName\<close>, \<^verbatim>\<open>verbose\<close>,
  \<^verbatim>\<open>operationalMode\<close>, \<^verbatim>\<open>userAccountId\<close> and \<^verbatim>\<open>customSystemMessagePreamble\<close>. Each of
  \<^verbatim>\<open>customSystemMessagePostamble\<close>, \<^verbatim>\<open>scheduleUserTransactionsInBytesMode\<close>,
  \<^verbatim>\<open>mirrorNodeConfig\<close> and \<^verbatim>\<open>disableLogging\<close> is a key exactly when the caller supplied it,
  with the supplied value, and is omitted entirely otherwise. \<^verbatim>\<open>userAccountId\<close> is present
  with the value \<^verbatim>\<open>undefined\<close> when not supplied; \<^verbatim>\<open>openAIModelName\<close>, \<^verbatim>\<open>verbose\<close> and
  \<^verbatim>\<open>operationalMode\<close> are present with the defaults \<^verbatim>\<open>gpt-4o\<close>, \<^verbatim>\<open>false\<close> and \<^verbatim>\<open>autonomous\<close>
  when not supplied.
\<close>

theorem optional_fields_in_configuration:
  assumes "assembly_inputs H this = Some (acct, core)"
  shows "\<exists>cfg. assembled_configs (calls (snd (StandardsKit_initialize H this))) =
                 assembled_configs (calls this) @ [cfg]
    \<and> config_keys cfg =
        [''pluginConfig'', ''openAIApiKey'', ''openAIModelName'', ''verbose'', ''operationalMode'',
         ''userAccountId'', ''customSystemMessagePreamble'']
        @ (if customSystemMessagePostamble (options this) = None then []
           else [''customSystemMessagePostamble''])
        @ (if scheduleUserTransactionsInBytesMode (options this) = None then []
           else [''scheduleUserTransactionsInBytesMode''])
        @ (if mirrorNodeConfig (options this) = None then [] else [''mirrorNodeConfig''])
        @ (if disableLogging (options this) = None then [] else [''disableLogging''])
    \<and> config_value ''customSystemMessagePostamble'' cfg =
        map_option StringV (customSystemMessagePostamble (options this))
    \<and> config_value ''scheduleUserTransactionsInBytesMode'' cfg =
        map_option BoolV (scheduleUserTransactionsInBytesMode (options this))
    \<and> config_value ''mirrorNodeConfig'' cfg = map_option OpaqueV (mirrorNodeConfig (options this))
    \<and> config_value ''disableLogging'' cfg = map_option BoolV (disableLogging (options this))
    \<and> config_value ''userAccountId'' cfg =
        Some (case userAccountId (options this) of None \<Rightarrow> Undefined | Some u \<Rightarrow> StringV u)
    \<and> config_value ''openAIModelName'' cfg =
        Some (StringV (destructure_default (openAIModelName (options this)) ''gpt-4o''))
    \<and> config_value ''verbose'' cfg =
        Some (BoolV (destructure_default (verbose (options this)) False))
    \<and> config_value ''operationalMode'' cfg =
        Some (StringV (destructure_default (operationalMode (options this)) ''autonomous''))"
proof -
  let ?cfg = "agentConfig this acct
                (allPlugins this (destructure_default (additionalPlugins (options this)) []) core)"
  have "assembled_configs (calls (snd (StandardsKit_initialize H this))) =
          assembled_configs (calls this) @ [?cfg]"
    by (rule initialize_assembles [OF assms])
  then show ?thesis
    by (intro exI [of _ ?cfg])
      (simp add: agentConfig_keys agentConfig_fixed_values agentConfig_optional_values)
qed

theorem optional_fields_in_configuration_witness:
  "assembly_inputs (host_reporting ''ED25519'') (new_StandardsKit options_with_postamble) =
     Some (''0.0.12345'', [HostPlugin ''core-plugin''])
   \<and> map config_keys (assembled_configs (calls (snd (StandardsKit_initialize
        (host_reporting ''ED25519'') (new_StandardsKit options_with_postamble))))) =
       [[''pluginConfig'', ''openAIApiKey'', ''openAIModelName'', ''verbose'', ''operationalMode'',
         ''userAccountId'', ''customSystemMessagePreamble'', ''customSystemMessagePostamble'',
         ''disableLogging'']]
   \<and> map (config_value ''customSystemMessagePostamble'') (assembled_configs (calls (snd
        (StandardsKit_initialize (host_reporting ''ED25519'')
           (new_StandardsKit options_with_postamble))))) =
       [Some (StringV ''Additional instructions'')]
   \<and> map (config_value ''mirrorNodeConfig'') (assembled_configs (calls (snd
        (StandardsKit_initialize (host_reporting ''ED25519'')
           (new_StandardsKit options_with_postamble))))) = [None]"
proof -
  have a: "assembly_inputs (host_reporting ''ED25519'') (new_StandardsKit options_with_postamble) =
     Some (''0.0.12345'', [HostPlugin ''core-plugin''])"
    by (rule assembly_inputs_test) (simp_all add: options_with_postamble_def test_options_def)
  have o: "customSystemMessagePostamble options_with_postamble = Some ''Additional instructions''"
    "scheduleUserTransactionsInBytesMode options_with_postamble = None"
    "mirrorNodeConfig options_with_postamble = None"
    "disableLogging options_with_postamble = Some True"
    by (simp_all add: options_with_postamble_def test_options_def)
  from optional_fields_in_configuration [OF a] a show ?thesis
    by (auto simp: new_kit_fields o)
qed

text \<open>
  Claim C6 as stated says that every optional field the caller did not supply is omitted
  as a key. With the options of the unit tests, which supply neither \<^verbatim>\<open>userAccountId\<close> nor
  \<^verbatim>\<open>openAIModelName\<close>, the configuration has the key \<^verbatim>\<open>userAccountId\<close> with the value
  \<^verbatim>\<open>undefined\<close> and the key \<^verbatim>\<open>openAIModelName\<close> with the explicit default.
\<close>

theorem unsupplied_fields_present_in_configuration:
  "userAccountId test_options = None
   \<and> openAIModelName test_options = None
   \<and> map config_keys (assembled_configs (calls (snd (StandardsKit_initialize
        (host_reporting ''ED25519'') (new_StandardsKit test_options))))) =
       [[''pluginConfig'', ''openAIApiKey'', ''openAIModelName'', ''verbose'', ''operationalMode'',
         ''userAccountId'', ''customSystemMessagePreamble'']]
   \<and> map (config_value ''userAccountId'') (assembled_configs (calls (snd
        (StandardsKit_initialize (host_reporting ''ED25519'') (new_StandardsKit test_options))))) =
       [Some Undefined]
   \<and> map (config_value ''openAIModelName'') (assembled_configs (calls (snd
        (StandardsKit_initialize (host_reporting ''ED25519'') (new_StandardsKit test_options))))) =
       [Some (StringV ''gpt-4o'')]"
proof -
  have a: "assembly_inputs (host_reporting ''ED25519'') (new_StandardsKit test_options) =
     Some (''0.0.12345'', [HostPlugin ''core-plugin''])"
    by (rule assembly_inputs_test) (simp_all add: test_options_def)
  have o: "userAccountId test_options = None" "openAIModelName test_options = None"
    "customSystemMessagePostamble test_options = None"
    "scheduleUserTransactionsInBytesMode test_options = None"
    "mirrorNodeConfig test_options = None"
    "disableLogging test_options = None"
    by (simp_all add: test_options_def)
  show ?thesis
    by (simp add: initialize_assembles [OF a] agentConfig_keys agentConfig_fixed_values
        new_kit_fields o destructure_default_def)
qed

lemma parser_step:
  assumes "selected_parser_throws H accountInfo pkey = None"
  shows "(if string_includes (toLowerCase (keyType accountInfo)) ''ecdsa''
          then invoke (FromStringECDSA pkey)
                 (throws (fromStringECDSA_throws H pkey) (ECDSA_key pkey))
          else invoke (FromStringED25519 pkey)
                 (throws (fromStringED25519_throws H pkey) (ED25519_key pkey)))
        = (invoke (if string_includes (toLowerCase (keyType accountInfo)) ''ecdsa''
                  then FromStringECDSA pkey else FromStringED25519 pkey)
             (Inr (selected_key accountInfo pkey)) :: (PrivateKey, 'a StandardsKit) prog)"
  using assms
  by (simp add: selected_parser_throws_def selected_key_def throws_def split: if_splits)

lemma initialize_outcome:
  assumes "assembly_inputs H this = Some (acct, core)"
  shows "\<exists>signer before.
     (let cfg = agentConfig this acct
                  (allPlugins this (destructure_default (additionalPlugins (options this)) []) core);
          agent = HederaConversationalAgent signer cfg;
          lg = StandardsKit.logger this
      in StandardsKit_initialize H this =
        (case HederaConversationalAgent_throws H signer cfg of
           Some e \<Rightarrow>
             (Inl e, this\<lparr>calls := calls this @ before @
                [New_HederaConversationalAgent signer cfg,
                 Logger_error lg ''Failed to initialize StandardsKit:'' e]\<rparr>)
         | None \<Rightarrow>
             (case agent_initialize H agent of
                Some e \<Rightarrow>
                  (Inl e, this\<lparr>conversationalAgent := Some agent,
                     calls := calls this @ before @
                       [New_HederaConversationalAgent signer cfg, Agent_initialize agent,
                        Logger_error lg ''Failed to initialize StandardsKit:'' e]\<rparr>)
              | None \<Rightarrow>
                  (Inr (), this\<lparr>conversationalAgent := Some agent,
                     calls := calls this @ before @
                       [New_HederaConversationalAgent signer cfg, Agent_initialize agent]\<rparr>))))"
proof -
  let ?net = "destructure_default (network (options this)) ''testnet''"
  let ?lg = "StandardsKit.logger this"
  from assms obtain pkey accountInfo where h:
    "accountId (options this) = Some acct" "privateKey (options this) = Some pkey"
    "acct \<noteq> []" "pkey \<noteq> []"
    and m: "HederaMirrorNode_throws H ?net ?lg = None"
    and r: "requestAccount H (HederaMirrorNode ?net ?lg) acct = Inr accountInfo"
    and p: "selected_parser_throws H accountInfo pkey = None"
    and s: "ServerSigner_throws H acct (selected_key accountInfo pkey) ?net = None"
    and c: "getAllHederaCorePlugins H = Inr core"
    by (rule assembly_inputsD)
  let ?signer = "ServerSigner acct (selected_key accountInfo pkey) ?net"
  let ?before = "[New_HederaMirrorNode ?net ?lg, RequestAccount (HederaMirrorNode ?net ?lg) acct,
      if string_includes (toLowerCase (keyType accountInfo)) ''ecdsa''
      then FromStringECDSA pkey else FromStringED25519 pkey,
      New_ServerSigner acct (selected_key accountInfo pkey) ?net, GetAllHederaCorePlugins]"
  have t: "throws None x = Inr x" for x :: 'b
    by (simp add: throws_def)
  have b: "bindM (invoke c (Inr x)) f = (\<lambda>this. f x (this\<lparr>calls := calls this @ [c]\<rparr>))"
    for c :: "'a call" and x :: 'b and f :: "'b \<Rightarrow> ('c, 'a StandardsKit) prog"
    by (rule ext) (simp add: bindM_invoke_Inr)
  show ?thesis
    apply (rule exI [of _ ?signer])
    apply (rule exI [of _ ?before])
    apply (unfold Let_def initialize_unfold [OF h] try_block_def)
    apply (simp only: m t b r parser_step [OF p] s c)
    apply (simp add: catchM_def catch_block_def bindM_def invoke_def throws_def modifyM_def
        throwM_def split: option.splits)
    done
qed

lemma emits_bindM_fail:
  assumes "additive obs" and "obs [c] = []"
  shows "emits obs (bindM (invoke c (Inl e)) f) []"
  using assms by (simp add: emits_def additive_def bindM_def invoke_def)

lemma parser_step_fail:
  assumes "selected_parser_throws H accountInfo pkey = Some e"
  shows "(if string_includes (toLowerCase (keyType accountInfo)) ''ecdsa''
          then invoke (FromStringECDSA pkey)
                 (throws (fromStringECDSA_throws H pkey) (ECDSA_key pkey))
          else invoke (FromStringED25519 pkey)
                 (throws (fromStringED25519_throws H pkey) (ED25519_key pkey)))
        = (invoke (if string_includes (toLowerCase (keyType accountInfo)) ''ecdsa''
                  then FromStringECDSA pkey else FromStringED25519 pkey)
             (Inl e) :: (PrivateKey, 'a StandardsKit) prog)"
  using assms
  by (simp add: selected_parser_throws_def throws_def split: if_splits)

text \<open>
  In every run that does not get as far as the assembly, no configuration is handed to
  the constructor of the agent.
\<close>

lemma no_assembly_otherwise:
  assumes "assembly_inputs H this = None"
  shows "assembled_configs (calls (snd (StandardsKit_initialize H this))) =
           assembled_configs (calls this)"
proof -
  note a = assembled_configs_additive
  let ?net = "destructure_default (network (options this)) ''testnet''"
  let ?lg = "StandardsKit.logger this"
  have t: "throws None x = Inr x" "throws (Some e) x = Inl e" for x :: 'b and e
    by (simp_all add: throws_def)
  have n: "emits assembled_configs m [] \<Longrightarrow>
        assembled_configs (calls (snd (m this))) = assembled_configs (calls this)"
    for m :: "(unit, 'a StandardsKit) prog"
    by (simp add: emits_def)
  show ?thesis
  proof (cases "\<exists>acct pkey. accountId (options this) = Some acct
      \<and> privateKey (options this) = Some pkey \<and> acct \<noteq> [] \<and> pkey \<noteq> []")
    case False
    then show ?thesis
      by (auto simp: StandardsKit_initialize_def Let_def throwM_def split: option.splits)
  next
    case True
    then obtain acct pkey where h: "accountId (options this) = Some acct"
      "privateKey (options this) = Some pkey" "acct \<noteq> []" "pkey \<noteq> []"
      by blast
    let ?m = "catchM (try_block H ?net ?lg acct pkey
                (\<lambda>core. agentConfig this acct
                   (allPlugins this (destructure_default (additionalPlugins (options this)) []) core)))
              (catch_block ?lg)"
    have "emits assembled_configs ?m []"
    proof (cases "HederaMirrorNode_throws H ?net ?lg")
      case (Some e)
      show ?thesis
        unfolding try_block_def Some t
        by (intro emits_catchM emits_bindM_fail [OF a] emits_catch_block [OF a]) simp_all
    next
      case None
      note m = None
      show ?thesis
      proof (cases "requestAccount H (HederaMirrorNode ?net ?lg) acct")
        case (Inl e)
        show ?thesis
          unfolding try_block_def m t
          apply (rule emits_catchM)
           apply (rule emits_bindM_before [OF a])
            apply simp
           apply (simp only: Inl)
           apply (rule emits_bindM_fail [OF a])
           apply simp
          apply (rule emits_catch_block [OF a])
          apply simp
          done
      next
        case (Inr accountInfo)
        note r = Inr
        show ?thesis
        proof (cases "selected_parser_throws H accountInfo pkey")
          case (Some e)
          show ?thesis
            unfolding try_block_def m t
            apply (rule emits_catchM)
             apply (rule emits_bindM_before [OF a])
              apply simp
             apply (simp only: r)
             apply (rule emits_bindM_before [OF a])
              apply simp
             apply (simp only: parser_step_fail [OF Some])
             apply (rule emits_bindM_fail [OF a])
             apply simp
            apply (rule emits_catch_block [OF a])
            apply simp
            done
        next
          case None
          note p = None
          show ?thesis
          proof (cases "ServerSigner_throws H acct (selected_key accountInfo pkey) ?net")
            case (Some e)
            show ?thesis
              unfolding try_block_def m t
              apply (rule emits_catchM)
               apply (rule emits_bindM_before [OF a])
                apply simp
               apply (simp only: r)
               apply (rule emits_bindM_before [OF a])
                apply simp
               apply (simp only: parser_step [OF p])
               apply (rule emits_bindM_before [OF a])
                apply simp
               apply (simp only: Some t)
               apply (rule emits_bindM_fail [OF a])
               apply simp
              apply (rule emits_catch_block [OF a])
              apply simp
              done
          next
            case None
            note s = None
            from assms h m r p s obtain e where c: "getAllHederaCorePlugins H = Inl e"
              by (cases "getAllHederaCorePlugins H")
                (auto simp: assembly_inputs_def Let_def)
            show ?thesis
              unfolding try_block_def m t
              apply (rule emits_catchM)
               apply (rule emits_bindM_before [OF a])
                apply simp
               apply (simp only: r)
               apply (rule emits_bindM_before [OF a])
                apply simp
               apply (simp only: parser_step [OF p])
               apply (rule emits_bindM_before [OF a])
                apply simp
               apply (simp only: s t)
               apply (rule emits_bindM_before [OF a])
                apply simp
               apply (simp only: c)
               apply (rule emits_bindM_fail [OF a])
               apply simp
              apply (rule emits_catch_block [OF a])
              apply simp
              done
          qed
        qed
      qed
    qed
    then show ?thesis
      unfolding initialize_unfold [OF h] by (rule n)
  qed
qed

lemma processMessage_not_initialized:
  assumes "conversationalAgent this = None"
  shows "processMessage H message chatHistory this =
           (Inl (Error ''StandardsKit not initialized. Call initialize() first.''), this)
       \<and> getConversationalAgent this =
           Inl (Error ''StandardsKit not initialized. Call initialize() first.'')"
  using assms by (simp add: processMessage_def getConversationalAgent_def throwM_def Let_def)

lemma processMessage_delegates:
  assumes "conversationalAgent this = Some agent"
  shows "processMessage H message chatHistory this =
           (agent_processMessage H agent message (destructure_default chatHistory []),
            this\<lparr>calls := calls this @
              [Agent_processMessage agent message (destructure_default chatHistory [])]\<rparr>)
       \<and> getConversationalAgent this = Inr agent"
  using assms by (simp add: processMessage_def getConversationalAgent_def invoke_def Let_def)

lemma processMessage_after_successful_initialize:
  assumes "assembly_inputs H this = Some (acct, core)"
    and "\<And>signer cfg. HederaConversationalAgent_throws H signer cfg = None"
    and "\<And>agent. agent_initialize H agent = None"
  shows "\<exists>agent. fst (StandardsKit_initialize H this) = Inr ()
    \<and> getConversationalAgent (snd (StandardsKit_initialize H this)) = Inr agent
    \<and> fst (processMessage H message chatHistory (snd (StandardsKit_initialize H this))) =
        agent_processMessage H agent message (destructure_default chatHistory [])"
proof -
  from initialize_outcome [OF assms(1)] obtain agent after where
    i: "StandardsKit_initialize H this =
          (Inr (), this\<lparr>conversationalAgent := Some agent, calls := after\<rparr>)"
    by (auto simp: Let_def assms(2,3))
  have c: "conversationalAgent (this\<lparr>conversationalAgent := Some agent, calls := after\<rparr>) =
             Some agent"
    by simp
  show ?thesis
    by (rule exI [of _ agent]) (simp add: i processMessage_delegates [OF c])
qed

text \<open>
  Claim C7, at an input where the code departs from it. The wrapper is new, so no agent
  is set. \<^verbatim>\<open>initialize()\<close> rejects, because the initialization of the agent it constructed
  rejects; it has not completed successfully. Yet \<^verbatim>\<open>processMessage\<close> then does not reject
  with the not-initialized error: it hands the message to that agent and returns its
  answer, and \<^verbatim>\<open>getConversationalAgent()\<close> does not throw the not-initialized error either.
  The field \<^verbatim>\<open>conversationalAgent\<close> is assigned before the agent's initialization is awaited.
\<close>

theorem processMessage_after_rejected_agent_initialize:
  "conversationalAgent (new_StandardsKit test_options) = None
   \<and> fst (StandardsKit_initialize host_rejecting_agent_initialize (new_StandardsKit test_options)) =
       Inl (Error ''Agent initialization failed'')
   \<and> fst (processMessage host_rejecting_agent_initialize ''Test'' None
        (snd (StandardsKit_initialize host_rejecting_agent_initialize
           (new_StandardsKit test_options)))) = Inr ''Agent response''
   \<and> filter is_processMessage_call (calls (snd (processMessage host_rejecting_agent_initialize
        ''Test'' None (snd (StandardsKit_initialize host_rejecting_agent_initialize
           (new_StandardsKit test_options)))))) \<noteq> []
   \<and> getConversationalAgent (snd (StandardsKit_initialize host_rejecting_agent_initialize
        (new_StandardsKit test_options))) \<noteq>
       Inl (Error ''StandardsKit not initialized. Call initialize() first.'')"
proof -
  let ?H = "host_rejecting_agent_initialize"
  let ?kit = "new_StandardsKit test_options :: string StandardsKit"
  have a: "assembly_inputs ?H ?kit = Some (''0.0.12345'', [HostPlugin ''core-plugin''])"
    by (simp add: assembly_inputs_def Let_def new_StandardsKit_def host_reporting_def
      host_rejecting_agent_initialize_def test_options_def
      destructure_default_def selected_parser_throws_def selected_key_def keyType_def
      lower_ed25519)
  have w: "HederaConversationalAgent_throws ?H signer cfg = None"
    "agent_initialize ?H agent = Some (Error ''Agent initialization failed'')"
    "agent_processMessage ?H agent message history = Inr ''Agent response''"
    for signer cfg agent message history
    by (simp_all add: host_rejecting_agent_initialize_def host_reporting_def)
  from initialize_outcome [OF a] obtain agent before where
    i: "StandardsKit_initialize ?H ?kit =
      (Inl (Error ''Agent initialization failed''),
       ?kit\<lparr>conversationalAgent := Some agent, calls := before\<rparr>)"
    by (auto simp: Let_def w new_kit_fields)
  have c: "conversationalAgent (?kit\<lparr>conversationalAgent := Some agent, calls := before\<rparr>) =
             Some agent"
    by simp
  show ?thesis
    by (simp add: new_kit_fields processMessage_delegates [OF c] w i)
qed

end
